theory Spec2Isabelle
  imports Main "HOL-Library.AList"
begin

section \<open>The V2 to V3 project migrator of TeamsFx (projectMigratorV3.ts)\<close>

text \<open>
  The migrator is asynchronous TypeScript that works on a project directory through a
  \<^verbatim>\<open>MigrationContext\<close> object and the \<^verbatim>\<open>fs-extra\<close> library. Every \<^verbatim>\<open>await\<close> is
  sequential, so an asynchronous function is modelled as a state transformer that either
  returns a value or throws: \<open>Inl e\<close> is a rejected promise (a thrown error), \<open>Inr x\<close> a
  fulfilled one. The state holds the outside world (the file system, the mutable fields of
  the \<^verbatim>\<open>MigrationContext\<close>, module-level variables) and a log of the calls the migrator
  made into it, in the order it made them.
\<close>

subsection \<open>Errors, results and the log of calls\<close>

datatype error =
    Error string
  | TypeError string
  | FxError string
  | FsError string

datatype ('e, 'a) Result = Ok 'a | Err 'e

datatype FileType = STATE | CONFIG | USERDATA

datatype event =
    CheckMethod
  | CheckUserTasks
  | MigrationContextCreate
  | Next
  | Backup string
  | FsEnsureDir string
  | FsWriteFile string string
  | CleanModifiedPaths
  | RestoreBackup
  | CleanTeamsfx
  | LoadProjectSettingsByProjectPathV2 string bool
  | ReadFile string
  | PathExists string
  | ReadJson string

record 'w state =
  world :: 'w
  calls :: "event list"

type_synonym ('w, 'a) promise = "'w state \<Rightarrow> (error + 'a) \<times> 'w state"

type_synonym ('w, 'a) effect = "'w \<Rightarrow> (error + 'a) \<times> 'w"

definition returnM :: "'a \<Rightarrow> ('w, 'a) promise" where
  "returnM x = (\<lambda>s. (Inr x, s))"

definition throwM :: "error \<Rightarrow> ('w, 'a) promise" where
  "throwM e = (\<lambda>s. (Inl e, s))"

definition bindM :: "('w, 'a) promise \<Rightarrow> ('a \<Rightarrow> ('w, 'b) promise) \<Rightarrow> ('w, 'b) promise" where
  "bindM m f = (\<lambda>s. case m s of (Inl e, s') \<Rightarrow> (Inl e, s') | (Inr x, s') \<Rightarrow> f x s')"

definition tryCatch :: "('w, 'a) promise \<Rightarrow> (error \<Rightarrow> ('w, 'a) promise) \<Rightarrow> ('w, 'a) promise" where
  "tryCatch m h = (\<lambda>s. case m s of (Inl e, s') \<Rightarrow> h e s' | (Inr x, s') \<Rightarrow> (Inr x, s'))"

text \<open>
  A call into the outside world: the operation runs on the world and the call is appended
  to the log, whether it returns or throws.
\<close>

definition invoke :: "event \<Rightarrow> ('w, 'a) effect \<Rightarrow> ('w, 'a) promise" where
  "invoke c op = (\<lambda>s. case op (world s) of (r, w') \<Rightarrow> (r, \<lparr>world = w', calls = calls s @ [c]\<rparr>))"

subsection \<open>Data of the migrator\<close>

text \<open>JSON values as \<^verbatim>\<open>fs.readJson\<close> returns them; \<open>None\<close> of \<open>json option\<close> is \<^verbatim>\<open>undefined\<close>.\<close>

datatype json =
    JNull
  | JBool bool
  | JNum int
  | JStr string
  | JArr "json list"
  | JObj "(string \<times> json) list"

record SolutionSettings =
  hostType :: "string option"
  activeResourcePlugins :: "string list option"

record ProjectSettings =
  appName :: string
  projectId :: "string option"
  programmingLanguage :: "string option"
  defaultFunctionName :: "string option"
  solutionSettings :: "SolutionSettings option"

record CoreHookContext =
  hookMethod :: "string option"
  hookProjectPath :: "string option"
  result :: "(error, json option) Result option"

record MigrationContext =
  projectPath :: string

record HandlebarsContext =
  ctxActivePlugins :: "(string \<times> bool) list"
  ctxPlaceholderMappings :: "(string \<times> string) list"
  ctxAadAppName :: "json option"
  ctxTeamsAppName :: "json option"
  ctxAppName :: "string option"
  ctxIsFunctionBot :: bool
  ctxIsWebAppBot :: bool
  ctxUseBotWebAppResourceId :: bool
  ctxIsTypescript :: bool
  ctxDefaultFunctionName :: "string option"
  ctxEnvironmentFolder :: "string option"
  ctxProjectId :: "string option"
  ctxDotnetPath :: "string option"

record AppYmlGenerator =
  oldProjectSettings :: ProjectSettings
  bicepContent :: string
  generatorProjectPath :: "string option"
  handlebarsContext :: HandlebarsContext

text \<open>
  What the migrator imports and the sources do not hold is a parameter of the model: the
  constants of \<^verbatim>\<open>@microsoft/teamsfx-api\<close> and \<^verbatim>\<open>versionMetadata\<close>, the methods of
  \<^verbatim>\<open>MigrationContext\<close> (\<^verbatim>\<open>utils/migrationContext.ts\<close>), \<^verbatim>\<open>checkMethod\<close> and
  \<^verbatim>\<open>checkUserTasks\<close> (\<^verbatim>\<open>projectMigrator.ts\<close>), the settings loader
  (\<^verbatim>\<open>projectSettingsLoader.ts\<close>), \<^verbatim>\<open>namingConverterV3\<close> (\<^verbatim>\<open>MigrationUtils.ts\<close>), the
  V2 to V3 settings conversion and its bot predicates, and the libraries \<^verbatim>\<open>path\<close>,
  \<^verbatim>\<open>fs-extra\<close> and \<^verbatim>\<open>handlebars\<close>. Each operation on the world may throw.
  \<open>'w\<close> is the type of the world and \<open>'v\<close> the type of converted V3 settings.
\<close>

record ('w, 'v) env =
  V2TeamsfxFolder :: string
  SettingsFolderName :: string
  SettingsFileName :: string
  aadManifestFileName :: string
  teamsManifestFileName :: string
  AppPackageFolderName :: string
  defaultEnvironmentFolder :: string
  getTemplatesFolder :: string
  pathJoin :: "string list \<Rightarrow> string"
  namingConverterV3 :: "string \<Rightarrow> FileType \<Rightarrow> string \<Rightarrow> (error, string) Result"
  convertProjectSettingsV2ToV3 :: "ProjectSettings \<Rightarrow> string option \<Rightarrow> 'v"
  hasFunctionBot :: "'v \<Rightarrow> bool"
  hasWebAppBot :: "'v \<Rightarrow> bool"
  handlebars :: "string \<Rightarrow> HandlebarsContext \<Rightarrow> error + string"
  checkMethod :: "CoreHookContext \<Rightarrow> ('w, bool) effect"
  checkUserTasks :: "CoreHookContext \<Rightarrow> ('w, bool) effect"
  migrationContextCreate :: "CoreHookContext \<Rightarrow> ('w, MigrationContext) effect"
  backup :: "MigrationContext \<Rightarrow> string \<Rightarrow> ('w, bool) effect"
  fsEnsureDir :: "MigrationContext \<Rightarrow> string \<Rightarrow> ('w, unit) effect"
  fsWriteFile :: "MigrationContext \<Rightarrow> string \<Rightarrow> string \<Rightarrow> ('w, unit) effect"
  cleanModifiedPaths :: "MigrationContext \<Rightarrow> ('w, unit) effect"
  restoreBackup :: "MigrationContext \<Rightarrow> ('w, unit) effect"
  cleanTeamsfx :: "MigrationContext \<Rightarrow> ('w, unit) effect"
  loadProjectSettingsByProjectPathV2 ::
    "string \<Rightarrow> bool \<Rightarrow> ('w, (error, ProjectSettings) Result) effect"
  readFile :: "string \<Rightarrow> ('w, string) effect"
  pathExists :: "string \<Rightarrow> ('w, bool) effect"
  readJson :: "string \<Rightarrow> ('w, json) effect"

subsection \<open>Library functions of JavaScript\<close>

text \<open>
  \<^verbatim>\<open>String.prototype.toLowerCase\<close> on the letters A to Z (strings are byte strings here;
  every other byte is left as it is), \<^verbatim>\<open>String.prototype.includes\<close>, and
  \<^verbatim>\<open>JSON.stringify(content, null, 4)\<close> on an object whose properties are strings or
  \<^verbatim>\<open>undefined\<close>: a property that is \<^verbatim>\<open>undefined\<close> is left out of the text.
\<close>

definition toLowerChar :: "char \<Rightarrow> char" where
  "toLowerChar c =
     (let n = (of_char c :: nat) in if 65 \<le> n \<and> n \<le> 90 then char_of (n + 32) else c)"

definition toLowerCase :: "string \<Rightarrow> string" where
  "toLowerCase s = map toLowerChar s"

fun stringIncludes :: "string \<Rightarrow> string \<Rightarrow> bool" where
  "stringIncludes [] sub = (sub = [])"
| "stringIncludes (c # cs) sub =
     (if take (length sub) (c # cs) = sub then True else stringIncludes cs sub)"

definition hexDigit :: "nat \<Rightarrow> char" where
  "hexDigit n = ''0123456789abcdef'' ! (n mod 16)"

definition quoteChar :: "char \<Rightarrow> string" where
  "quoteChar c =
     (let n = (of_char c :: nat) in
      if n = 8 then [CHR 0x5C, CHR ''b'']
      else if n = 9 then [CHR 0x5C, CHR ''t'']
      else if n = 10 then [CHR 0x5C, CHR ''n'']
      else if n = 12 then [CHR 0x5C, CHR ''f'']
      else if n = 13 then [CHR 0x5C, CHR ''r'']
      else if n = 34 then [CHR 0x5C, CHR 0x22]
      else if n = 92 then [CHR 0x5C, CHR 0x5C]
      else if n < 32 then [CHR 0x5C, CHR ''u'', CHR ''0'', CHR ''0'', hexDigit (n div 16), hexDigit n]
      else [c])"

definition QuoteJSONString :: "string \<Rightarrow> string" where
  "QuoteJSONString s = [CHR 0x22] @ concat (map quoteChar s) @ [CHR 0x22]"

fun definedProperties :: "(string \<times> string option) list \<Rightarrow> (string \<times> string) list" where
  "definedProperties [] = []"
| "definedProperties ((k, None) # ps) = definedProperties ps"
| "definedProperties ((k, Some v) # ps) = (k, v) # definedProperties ps"

fun joinLines :: "string list \<Rightarrow> string" where
  "joinLines [] = []"
| "joinLines [l] = l"
| "joinLines (l # m # ls) = l @ '','' @ [CHR 0x0A] @ joinLines (m # ls)"

definition JSON_stringify :: "(string \<times> string option) list \<Rightarrow> string" where
  "JSON_stringify content =
     (case definedProperties content of
        [] \<Rightarrow> ''{}''
      | p # ps \<Rightarrow>
          ''{'' @ [CHR 0x0A]
          @ joinLines (map (\<lambda>(k, v). ''    '' @ QuoteJSONString k @ '': '' @ QuoteJSONString v) (p # ps))
          @ [CHR 0x0A] @ ''}'')"

text \<open>
  Reading a property of a JSON value: of \<^verbatim>\<open>null\<close> it throws a \<^verbatim>\<open>TypeError\<close>, of an
  object it is the property or \<^verbatim>\<open>undefined\<close>, and the properties read here (\<^verbatim>\<open>name\<close>,
  \<^verbatim>\<open>short\<close>) are \<^verbatim>\<open>undefined\<close> on a boolean, a number, a string and an array.
\<close>

definition getProperty :: "json \<Rightarrow> string \<Rightarrow> error + json option" where
  "getProperty j k =
     (case j of
        JNull \<Rightarrow> Inl (TypeError (''Cannot read properties of null (reading '' @ k @ '')''))
      | JObj kvs \<Rightarrow> Inr (map_of kvs k)
      | _ \<Rightarrow> Inr None)"

subsection \<open>The coordinator (projectMigratorV3.ts)\<close>

definition MigrationVersion :: string where
  "MigrationVersion = ''2.1.0''"

definition provisionBicepPath :: string where
  "provisionBicepPath = ''./templates/azure/provision.bicep''"

definition appYmlName :: string where
  "appYmlName = ''app.yml''"

definition rollbackMigration :: "('w, 'v) env \<Rightarrow> MigrationContext \<Rightarrow> ('w, unit) promise" where
  "rollbackMigration env context =
     bindM (invoke CleanModifiedPaths (cleanModifiedPaths env context)) (\<lambda>_.
     bindM (invoke RestoreBackup (restoreBackup env context)) (\<lambda>_.
     invoke CleanTeamsfx (cleanTeamsfx env context)))"

definition showSummaryReport :: "MigrationContext \<Rightarrow> ('w, unit) promise" where
  "showSummaryReport context = returnM ()"

definition wrapRunMigration ::
  "('w, 'v) env \<Rightarrow> MigrationContext \<Rightarrow> (MigrationContext \<Rightarrow> ('w, unit) promise) \<Rightarrow> ('w, unit) promise"
where
  "wrapRunMigration env context exec =
     tryCatch
       (bindM (exec context) (\<lambda>_. showSummaryReport context))
       (\<lambda>error. bindM (rollbackMigration env context) (\<lambda>_. throwM error))"

definition preMigration :: "('w, 'v) env \<Rightarrow> MigrationContext \<Rightarrow> ('w, unit) promise" where
  "preMigration env context =
     bindM (invoke (Backup (V2TeamsfxFolder env)) (backup env context (V2TeamsfxFolder env)))
       (\<lambda>_. returnM ())"

text \<open>The version is not read from the project yet: the source returns the constant.\<close>

definition getProjectVersion :: "CoreHookContext \<Rightarrow> ('w, string) promise" where
  "getProjectVersion ctx = returnM ''2.1.0''"

definition checkVersionForMigration :: "CoreHookContext \<Rightarrow> ('w, bool) promise" where
  "checkVersionForMigration ctx =
     bindM (getProjectVersion ctx) (\<lambda>version. returnM (version = MigrationVersion))"

definition loadProjectSettings :: "('w, 'v) env \<Rightarrow> string \<Rightarrow> ('w, ProjectSettings) promise" where
  "loadProjectSettings env path =
     bindM (invoke (LoadProjectSettingsByProjectPathV2 path True)
              (loadProjectSettingsByProjectPathV2 env path True))
       (\<lambda>oldProjectSettings.
          case oldProjectSettings of Ok settings \<Rightarrow> returnM settings | Err e \<Rightarrow> throwM e)"

definition generateSettingsJson :: "('w, 'v) env \<Rightarrow> MigrationContext \<Rightarrow> ('w, unit) promise" where
  "generateSettingsJson env context =
     bindM (loadProjectSettings env (projectPath context)) (\<lambda>oldProjectSettings.
     let content = [(''version'', Some ''3.0.0''), (''trackingId'', projectId oldProjectSettings)] in
     bindM (invoke (FsEnsureDir (SettingsFolderName env))
              (fsEnsureDir env context (SettingsFolderName env))) (\<lambda>_.
     invoke (FsWriteFile (pathJoin env [SettingsFolderName env, SettingsFileName env])
               (JSON_stringify content))
       (fsWriteFile env context (pathJoin env [SettingsFolderName env, SettingsFileName env])
          (JSON_stringify content))))"

subsection \<open>The generator of app.yml (utils/appYmlGenerator.ts)\<close>

definition newAppYmlGenerator ::
  "ProjectSettings \<Rightarrow> string \<Rightarrow> string option \<Rightarrow> AppYmlGenerator"
where
  "newAppYmlGenerator settings bicep path =
     \<lparr>oldProjectSettings = settings,
      bicepContent = bicep,
      generatorProjectPath = path,
      handlebarsContext =
        \<lparr>ctxActivePlugins = [],
         ctxPlaceholderMappings = [],
         ctxAadAppName = None,
         ctxTeamsAppName = None,
         ctxAppName = None,
         ctxIsFunctionBot = False,
         ctxIsWebAppBot = False,
         ctxUseBotWebAppResourceId = False,
         ctxIsTypescript = False,
         ctxDefaultFunctionName = None,
         ctxEnvironmentFolder = None,
         ctxProjectId = None,
         ctxDotnetPath = Some ''DOTNET_PATH''\<rparr>\<rparr>"

definition buildHandlebarsTemplate ::
  "('w, 'v) env \<Rightarrow> AppYmlGenerator \<Rightarrow> string \<Rightarrow> ('w, string) promise"
where
  "buildHandlebarsTemplate env this templateName =
     (let templatePath = pathJoin env [getTemplatesFolder env, ''core/v3Migration'', templateName] in
      bindM (invoke (ReadFile templatePath) (readFile env templatePath)) (\<lambda>templateString.
      case handlebars env templateString (handlebarsContext this) of
        Inl e \<Rightarrow> throwM e
      | Inr rendered \<Rightarrow> returnM rendered))"

text \<open>
  \<^verbatim>\<open>handlebarsContext.activePlugins[activePlugin] = true\<close> and
  \<^verbatim>\<open>handlebarsContext.placeholderMappings[placeholder] = result.value\<close> assign a property
  of an object: the key keeps its place when it is there already, and is added last
  otherwise, which is \<open>AList.update\<close>. The project path of the generator is \<^verbatim>\<open>undefined\<close>
  (\<open>None\<close>) when the constructor was called without it; \<^verbatim>\<open>path.join\<close> throws a
  \<^verbatim>\<open>TypeError\<close> on an argument that is not a string.
\<close>

definition generateCommonHandlerbarsContext ::
  "('w, 'v) env \<Rightarrow> AppYmlGenerator \<Rightarrow> ('w, AppYmlGenerator) promise"
where
  "generateCommonHandlerbarsContext env this =
     (let c0 = (handlebarsContext this)\<lparr>ctxAppName := Some (appName (oldProjectSettings this))\<rparr> in
      case solutionSettings (oldProjectSettings this) of
        None \<Rightarrow>
          throwM (TypeError ''Cannot read properties of undefined (reading activeResourcePlugins)'')
      | Some azureSolutionSettings \<Rightarrow>
          (case activeResourcePlugins azureSolutionSettings of
             None \<Rightarrow> throwM (TypeError ''azureSolutionSettings.activeResourcePlugins is not iterable'')
           | Some plugins \<Rightarrow>
               (case generatorProjectPath this of
                  None \<Rightarrow>
                    throwM (TypeError ''The path argument must be of type string. Received undefined'')
                | Some root \<Rightarrow>
               (let c1 = c0\<lparr>ctxActivePlugins :=
                            foldl (\<lambda>m activePlugin. AList.update activePlugin True m)
                              (ctxActivePlugins c0) plugins\<rparr>;
                    aadManifestPath = pathJoin env [root, aadManifestFileName env];
                    teamsAppManifestPath =
                      pathJoin env [root, AppPackageFolderName env, teamsManifestFileName env]
                in
                bindM (invoke (PathExists aadManifestPath) (pathExists env aadManifestPath))
                  (\<lambda>aadExists.
                bindM
                  (if aadExists then
                     bindM (invoke (ReadJson aadManifestPath) (readJson env aadManifestPath))
                       (\<lambda>aadManifest.
                          case getProperty aadManifest ''name'' of
                            Inl e \<Rightarrow> throwM e
                          | Inr n \<Rightarrow> returnM (c1\<lparr>ctxAadAppName := n\<rparr>))
                   else returnM c1)
                  (\<lambda>c2.
                bindM (invoke (PathExists teamsAppManifestPath) (pathExists env teamsAppManifestPath))
                  (\<lambda>teamsExists.
                bindM
                  (if teamsExists then
                     bindM (invoke (ReadJson teamsAppManifestPath) (readJson env teamsAppManifestPath))
                       (\<lambda>teamsAppManifest.
                          case getProperty teamsAppManifest ''name'' of
                            Inl e \<Rightarrow> throwM e
                          | Inr None \<Rightarrow>
                              throwM (TypeError ''Cannot read properties of undefined (reading short)'')
                          | Inr (Some n) \<Rightarrow>
                              (case getProperty n ''short'' of
                                 Inl e \<Rightarrow> throwM e
                               | Inr short \<Rightarrow> returnM (c2\<lparr>ctxTeamsAppName := short\<rparr>)))
                   else returnM c2)
                  (\<lambda>c3.
                returnM
                  (this\<lparr>handlebarsContext :=
                     c3\<lparr>ctxIsTypescript :=
                          (map_option toLowerCase (programmingLanguage (oldProjectSettings this))
                           = Some ''typescript''),
                        ctxDefaultFunctionName := defaultFunctionName (oldProjectSettings this),
                        ctxProjectId := projectId (oldProjectSettings this),
                        ctxEnvironmentFolder := Some (defaultEnvironmentFolder env)\<rparr>\<rparr>)))))))))"

definition setPlaceholderMapping ::
  "('w, 'v) env \<Rightarrow> AppYmlGenerator \<Rightarrow> string \<Rightarrow> AppYmlGenerator"
where
  "setPlaceholderMapping env this placeholder =
     (case namingConverterV3 env placeholder STATE (bicepContent this) of
        Ok v \<Rightarrow>
          this\<lparr>handlebarsContext :=
            (handlebarsContext this)\<lparr>ctxPlaceholderMappings :=
              AList.update placeholder v (ctxPlaceholderMappings (handlebarsContext this))\<rparr>\<rparr>
      | Err e \<Rightarrow> this)"

text \<open>The nine placeholders \<^verbatim>\<open>generateAzureHandlebarsContext\<close> sets, in its order.\<close>

definition azurePlaceholders :: "string list" where
  "azurePlaceholders =
     [''state.fx-resource-frontend-hosting.storageResourceId'',
      ''state.fx-resource-frontend-hosting.endpoint'',
      ''state.fx-resource-frontend-hosting.resourceId'',
      ''state.fx-resource-frontend-hosting.indexPath'',
      ''state.fx-resource-bot.resourceId'',
      ''state.fx-resource-bot.functionAppResourceId'',
      ''state.fx-resource-bot.botWebAppResourceId'',
      ''state.fx-resource-function.functionAppResourceId'',
      ''state.fx-resource-function.functionEndpoint'']"

definition generateAzureHandlebarsContext :: "('w, 'v) env \<Rightarrow> AppYmlGenerator \<Rightarrow> AppYmlGenerator" where
  "generateAzureHandlebarsContext env this =
     (let projectSettings =
            convertProjectSettingsV2ToV3 env (oldProjectSettings this) (generatorProjectPath this);
          isFunctionBot = hasFunctionBot env projectSettings;
          isWebAppBot = hasWebAppBot env projectSettings;
          flagged =
            this\<lparr>handlebarsContext :=
              (handlebarsContext this)
                \<lparr>ctxIsFunctionBot := isFunctionBot,
                 ctxIsWebAppBot := isWebAppBot,
                 ctxUseBotWebAppResourceId :=
                   (isWebAppBot \<and> stringIncludes (bicepContent this) ''botWebAppResourceId'')\<rparr>\<rparr>
      in foldl (setPlaceholderMapping env) flagged azurePlaceholders)"

definition unsupportedMessage :: string where
  "unsupportedMessage =
     ''The current tooling cannot upgrade your project temporary. Please raise an issue in GitHub for your project.''"

definition AppYmlGenerator_generateAppYml ::
  "('w, 'v) env \<Rightarrow> AppYmlGenerator \<Rightarrow> ('w, string) promise"
where
  "AppYmlGenerator_generateAppYml env this0 =
     bindM (generateCommonHandlerbarsContext env this0) (\<lambda>this.
     case solutionSettings (oldProjectSettings this) of
       None \<Rightarrow> throwM (TypeError ''Cannot read properties of undefined (reading hostType)'')
     | Some settings \<Rightarrow>
         (case hostType settings of
            None \<Rightarrow> throwM (TypeError ''Cannot read properties of undefined (reading toLowerCase)'')
          | Some host \<Rightarrow>
              if toLowerCase host = ''azure'' then
                (let azure = generateAzureHandlebarsContext env this;
                     language = map_option toLowerCase (programmingLanguage (oldProjectSettings azure))
                 in
                 if language = Some ''javascript'' \<or> language = Some ''typescript'' then
                   buildHandlebarsTemplate env azure ''js.ts.app.yml''
                 else if language = Some ''csharp'' then
                   buildHandlebarsTemplate env azure ''csharp.app.yml''
                 else throwM (Error unsupportedMessage))
              else if toLowerCase host = ''spfx'' then
                buildHandlebarsTemplate env this ''spfx.app.yml''
              else throwM (Error unsupportedMessage)))"

subsection \<open>The migration steps and the middleware (projectMigratorV3.ts)\<close>

text \<open>
  The constructor of \<^verbatim>\<open>AppYmlGenerator\<close> takes the old settings, the bicep text and the
  project path. The call in \<^verbatim>\<open>generateAppYml\<close> is
  \<^verbatim>\<open>new AppYmlGenerator(oldProjectSettings, bicepContent)\<close>, with two arguments, so the
  project path of the generator it builds is \<^verbatim>\<open>undefined\<close>.
\<close>

definition generateAppYml :: "('w, 'v) env \<Rightarrow> MigrationContext \<Rightarrow> ('w, unit) promise" where
  "generateAppYml env context =
     bindM (invoke (ReadFile (pathJoin env [projectPath context, provisionBicepPath]))
              (readFile env (pathJoin env [projectPath context, provisionBicepPath])))
       (\<lambda>bicep.
     bindM (loadProjectSettings env (projectPath context)) (\<lambda>settings.
     bindM (AppYmlGenerator_generateAppYml env
              (newAppYmlGenerator settings bicep None)) (\<lambda>appYmlString.
     invoke (FsWriteFile (pathJoin env [SettingsFolderName env, appYmlName]) appYmlString)
       (fsWriteFile env context (pathJoin env [SettingsFolderName env, appYmlName]) appYmlString))))"

definition subMigrations :: "('w, 'v) env \<Rightarrow> (MigrationContext \<Rightarrow> ('w, unit) promise) list" where
  "subMigrations env = [preMigration env, generateSettingsJson env, generateAppYml env]"

text \<open>The loop of \<^verbatim>\<open>migrate\<close>: each step is awaited before the next one starts.\<close>

fun forEachSubMigration ::
  "(MigrationContext \<Rightarrow> ('w, unit) promise) list \<Rightarrow> MigrationContext \<Rightarrow> ('w, unit) promise"
where
  "forEachSubMigration [] context = returnM ()"
| "forEachSubMigration (subMigration # rest) context =
     bindM (subMigration context) (\<lambda>_. forEachSubMigration rest context)"

definition migrate :: "('w, 'v) env \<Rightarrow> MigrationContext \<Rightarrow> ('w, unit) promise" where
  "migrate env context = forEachSubMigration (subMigrations env) context"

text \<open>
  The middleware. \<open>next\<close> is the rest of the hook chain with the wrapped operation; it may
  set the result of the hook context.
\<close>

definition ProjectMigratorMWV3 ::
  "('w, 'v) env \<Rightarrow> CoreHookContext \<Rightarrow> (CoreHookContext \<Rightarrow> ('w, CoreHookContext) effect)
   \<Rightarrow> ('w, CoreHookContext) promise"
where
  "ProjectMigratorMWV3 env ctx next =
     bindM
       (bindM (checkVersionForMigration ctx) (\<lambda>versionOk.
          if versionOk then invoke CheckMethod (checkMethod env ctx) else returnM False))
       (\<lambda>needed.
          if needed then
            bindM (invoke CheckUserTasks (checkUserTasks env ctx)) (\<lambda>tasksOk.
              if \<not> tasksOk then returnM (ctx\<lparr>result := Some (Ok None)\<rparr>)
              else
                bindM (invoke MigrationContextCreate (migrationContextCreate env ctx))
                  (\<lambda>migrationContext.
                bindM (wrapRunMigration env migrationContext (migrate env)) (\<lambda>_.
                returnM (ctx\<lparr>result := Some (Ok None)\<rparr>))))
          else invoke Next (next ctx))"

subsection \<open>Template selection, after the specification\<close>

text \<open>
  The specification asks that the template is a function of the target hosting type and
  the target programming language alone, with an error for the combinations that have no
  template. This is that function, to be compared with what
  \<^verbatim>\<open>AppYmlGenerator.generateAppYml\<close> does: \<open>None\<close> is "no template".
\<close>

definition specTemplateId :: "string \<Rightarrow> string option \<Rightarrow> string option" where
  "specTemplateId host language =
     (if toLowerCase host = ''azure'' then
        (if map_option toLowerCase language = Some ''javascript''
            \<or> map_option toLowerCase language = Some ''typescript''
         then Some ''js.ts.app.yml''
         else if map_option toLowerCase language = Some ''csharp'' then Some ''csharp.app.yml''
         else None)
      else if toLowerCase host = ''spfx'' then Some ''spfx.app.yml''
      else None)"

subsection \<open>What a computation adds to the log\<close>

text \<open>
  \<open>appends P m\<close>: from every state, \<open>m\<close> leaves the calls made so far in place and adds
  only calls that satisfy \<open>P\<close>.
\<close>

definition appends :: "(event \<Rightarrow> bool) \<Rightarrow> ('w, 'a) promise \<Rightarrow> bool" where
  "appends P m = (\<forall>s. \<exists>evs. calls (snd (m s)) = calls s @ evs \<and> list_all P evs)"

subsection \<open>A test environment\<close>

text \<open>
  A small environment on which the functions above are evaluated: the world is a list of
  text files by path, \<^verbatim>\<open>path.join\<close> joins with a slash and normalises the result as the
  POSIX \<^verbatim>\<open>path.join\<close> does (\<open>joinSlash\<close>), reading a file that is not there
  throws \<^verbatim>\<open>ENOENT\<close>, the settings loader returns the given settings, only the storage
  resource id resolves as a placeholder, and \<^verbatim>\<open>cleanModifiedPaths\<close> throws \<^verbatim>\<open>EPERM\<close> when
  \<open>rollbackFails\<close> is set.
\<close>

fun splitSlash :: "string \<Rightarrow> string list" where
  "splitSlash [] = [[]]"
| "splitSlash (c # cs) =
     (if c = CHR ''/'' then [] # splitSlash cs
      else (case splitSlash cs of [] \<Rightarrow> [[c]] | segment # segments \<Rightarrow> (c # segment) # segments))"

fun intercalateSlash :: "string list \<Rightarrow> string" where
  "intercalateSlash [] = []"
| "intercalateSlash [p] = p"
| "intercalateSlash (p # q # ps) = p @ ''/'' @ intercalateSlash (q # ps)"

definition normalizeSegment :: "bool \<Rightarrow> string list \<Rightarrow> string \<Rightarrow> string list" where
  "normalizeSegment absolute kept segment =
     (if segment = [] \<or> segment = ''.'' then kept
      else if segment = ''..'' then
        (if kept \<noteq> [] \<and> last kept \<noteq> ''..'' then butlast kept
         else if absolute then kept
         else kept @ [segment])
      else kept @ [segment])"

definition joinSlash :: "string list \<Rightarrow> string" where
  "joinSlash parts =
     (let joined = intercalateSlash (filter (\<lambda>p. p \<noteq> []) parts) in
      if joined = [] then ''.''
      else
        (let absolute = (hd joined = CHR ''/'');
             trailing = (last joined = CHR ''/'');
             body = intercalateSlash (foldl (normalizeSegment absolute) [] (splitSlash joined));
             shown = (if body = [] \<and> \<not> absolute then ''.'' else body);
             closed = (if body \<noteq> [] \<and> trailing then shown @ ''/'' else shown)
         in if absolute then ''/'' @ closed else closed))"

definition testEnv :: "bool \<Rightarrow> ProjectSettings \<Rightarrow> ((string \<times> string) list, ProjectSettings) env" where
  "testEnv rollbackFails settings =
     \<lparr>V2TeamsfxFolder = ''.fx'',
      SettingsFolderName = ''teamsfx'',
      SettingsFileName = ''settings.json'',
      aadManifestFileName = ''aad.manifest.json'',
      teamsManifestFileName = ''manifest.json'',
      AppPackageFolderName = ''appPackage'',
      defaultEnvironmentFolder = ''env'',
      getTemplatesFolder = ''templates'',
      pathJoin = joinSlash,
      namingConverterV3 = (\<lambda>placeholder fileType bicep.
        if placeholder = ''state.fx-resource-frontend-hosting.storageResourceId''
        then Ok ''provisionOutputs.frontendHostingOutput.storageResourceId''
        else Err (FxError ''FailedToConvertV2ConfigNameToV3'')),
      convertProjectSettingsV2ToV3 = (\<lambda>old path. old),
      hasFunctionBot = (\<lambda>v3. False),
      hasWebAppBot = (\<lambda>v3. True),
      handlebars = (\<lambda>template c. Inr template),
      checkMethod = (\<lambda>ctx w. (Inr (hookMethod ctx \<noteq> Some ''getProjectConfig''), w)),
      checkUserTasks = (\<lambda>ctx w. (Inr (hookMethod ctx \<noteq> Some ''executeUserTask''), w)),
      migrationContextCreate = (\<lambda>ctx w.
        (Inr \<lparr>projectPath = (case hookProjectPath ctx of None \<Rightarrow> [] | Some p \<Rightarrow> p)\<rparr>, w)),
      backup = (\<lambda>context dir w. (Inr True, w)),
      fsEnsureDir = (\<lambda>context dir w. (Inr (), w)),
      fsWriteFile = (\<lambda>context file content w. (Inr (), AList.update file content w)),
      cleanModifiedPaths = (\<lambda>context w.
        if rollbackFails then (Inl (FsError ''EPERM''), w) else (Inr (), w)),
      restoreBackup = (\<lambda>context w. (Inr (), w)),
      cleanTeamsfx = (\<lambda>context w. (Inr (), w)),
      loadProjectSettingsByProjectPathV2 = (\<lambda>path multiEnv w. (Inr (Ok settings), w)),
      readFile = (\<lambda>file w.
        case map_of w file of None \<Rightarrow> (Inl (FsError ''ENOENT''), w) | Some text \<Rightarrow> (Inr text, w)),
      pathExists = (\<lambda>file w. (Inr (map_of w file \<noteq> None), w)),
      readJson = (\<lambda>file w. (Inr (JObj [(''name'', JObj [(''short'', JStr ''app'')])]), w))\<rparr>"

definition testSettings :: "string \<Rightarrow> string option \<Rightarrow> ProjectSettings" where
  "testSettings host language =
     \<lparr>appName = ''app'',
      projectId = Some ''abc-123'',
      programmingLanguage = language,
      defaultFunctionName = None,
      solutionSettings =
        Some \<lparr>hostType = Some host,
              activeResourcePlugins = Some [''fx-resource-frontend-hosting'', ''fx-resource-bot'']\<rparr>\<rparr>"

definition testContext :: MigrationContext where
  "testContext = \<lparr>projectPath = ''proj''\<rparr>"

definition testHookContext :: "string \<Rightarrow> CoreHookContext" where
  "testHookContext name =
     \<lparr>hookMethod = Some name, hookProjectPath = Some ''proj'', result = None\<rparr>"

definition testNext :: "CoreHookContext \<Rightarrow> ((string \<times> string) list, CoreHookContext) effect" where
  "testNext ctx w = (Inr (ctx\<lparr>result := Some (Ok (Some (JStr ''done'')))\<rparr>), w)"

text \<open>
  The files of a test project: its bicep file and two templates. \<open>migratedFiles\<close> adds a
  settings file that declares version 3.0.0.
\<close>

definition testFiles :: "(string \<times> string) list" where
  "testFiles =
     [(''proj/templates/azure/provision.bicep'', ''output storage string = storage.id''),
      (''templates/core/v3Migration/js.ts.app.yml'', ''version: 1.0.0''),
      (''templates/core/v3Migration/spfx.app.yml'', ''version: 1.0.0'')]"

definition testState :: "(string \<times> string) list \<Rightarrow> (string \<times> string) list state" where
  "testState fs = \<lparr>world = fs, calls = []\<rparr>"

definition migratedFiles :: "(string \<times> string) list" where
  "migratedFiles = testFiles @ [(''proj/teamsfx/settings.json'', ''version: 3.0.0'')]"

section \<open>Auxiliary facts\<close>

subsection \<open>Running a sequence\<close>

lemma bindM_Inl: "m s = (Inl e, s1) \<Longrightarrow> bindM m f s = (Inl e, s1)"
  by (simp add: bindM_def)

lemma bindM_Inr: "m s = (Inr x, s1) \<Longrightarrow> bindM m f s = f x s1"
  by (simp add: bindM_def)

lemma run_Inr: "\<not> isl (fst p) \<Longrightarrow> p = (Inr (projr (fst p)), snd p)"
  by (cases p; cases "fst p") simp_all

lemma run_Inr_unit: "\<not> isl (fst p) \<Longrightarrow> p = (Inr (), snd p)"
  by (cases p; cases "fst p") simp_all

lemma run_Inl: "fst p = Inl e \<Longrightarrow> p = (Inl e, snd p)"
  by (cases p) simp

subsection \<open>The log only grows\<close>

lemma appendsD:
  "appends P m \<Longrightarrow> \<exists>evs. calls (snd (m s)) = calls s @ evs \<and> list_all P evs"
  by (simp add: appends_def)

lemma appends_returnM [intro!]: "appends P (returnM x)"
  by (simp add: appends_def returnM_def)

lemma appends_throwM [intro!]: "appends P (throwM e)"
  by (simp add: appends_def throwM_def)

lemma appends_invoke [intro!]: "P c \<Longrightarrow> appends P (invoke c op)"
  by (auto simp: appends_def invoke_def split: prod.splits)

lemma appends_bindM [intro!]:
  assumes m: "appends P m" and f: "\<And>x. appends P (f x)"
  shows "appends P (bindM m f)"
  unfolding appends_def
proof
  fix s
  obtain r s1 where run: "m s = (r, s1)" by (cases "m s")
  from appendsD [OF m, of s] run obtain evs
    where evs: "calls s1 = calls s @ evs" "list_all P evs" by auto
  show "\<exists>evs. calls (snd (bindM m f s)) = calls s @ evs \<and> list_all P evs"
  proof (cases r)
    case (Inl e)
    with run evs show ?thesis by (auto simp: bindM_def)
  next
    case (Inr x)
    from appendsD [OF f, of x s1] obtain evs'
      where "calls (snd (f x s1)) = calls s1 @ evs'" "list_all P evs'" by auto
    with run evs Inr show ?thesis by (auto simp: bindM_def)
  qed
qed

lemma appends_tryCatch [intro!]:
  assumes m: "appends P m" and h: "\<And>e. appends P (h e)"
  shows "appends P (tryCatch m h)"
  unfolding appends_def
proof
  fix s
  obtain r s1 where run: "m s = (r, s1)" by (cases "m s")
  from appendsD [OF m, of s] run obtain evs
    where evs: "calls s1 = calls s @ evs" "list_all P evs" by auto
  show "\<exists>evs. calls (snd (tryCatch m h s)) = calls s @ evs \<and> list_all P evs"
  proof (cases r)
    case (Inr x)
    with run evs show ?thesis by (auto simp: tryCatch_def)
  next
    case (Inl e)
    from appendsD [OF h, of e s1] obtain evs'
      where "calls (snd (h e s1)) = calls s1 @ evs'" "list_all P evs'" by auto
    with run evs Inl show ?thesis by (auto simp: tryCatch_def)
  qed
qed

lemma appends_rollbackMigration: "P CleanModifiedPaths \<Longrightarrow> P RestoreBackup \<Longrightarrow> P CleanTeamsfx \<Longrightarrow> appends P (rollbackMigration env context)"
  unfolding rollbackMigration_def by auto

lemma appends_loadProjectSettings:
  "P (LoadProjectSettingsByProjectPathV2 path True) \<Longrightarrow> appends P (loadProjectSettings env path)"
  unfolding loadProjectSettings_def by (auto split: Result.splits)

lemma appends_preMigration: "P (Backup (V2TeamsfxFolder env)) \<Longrightarrow> appends P (preMigration env context)"
  unfolding preMigration_def by auto

lemma appends_generateSettingsJson:
  "(\<And>c. c \<noteq> Next \<Longrightarrow> P c) \<Longrightarrow> appends P (generateSettingsJson env context)"
  unfolding generateSettingsJson_def Let_def
  by (intro appends_bindM appends_loadProjectSettings appends_invoke) auto

lemma appends_buildHandlebarsTemplate:
  "(\<And>c. c \<noteq> Next \<Longrightarrow> P c) \<Longrightarrow> appends P (buildHandlebarsTemplate env this t)"
  unfolding buildHandlebarsTemplate_def Let_def
  by (auto split: sum.splits)

lemma appends_generateCommonHandlerbarsContext:
  "(\<And>c. c \<noteq> Next \<Longrightarrow> P c) \<Longrightarrow> appends P (generateCommonHandlerbarsContext env this)"
  unfolding generateCommonHandlerbarsContext_def Let_def
  by (auto split: sum.splits option.splits)

lemma appends_AppYmlGenerator_generateAppYml:
  "(\<And>c. c \<noteq> Next \<Longrightarrow> P c) \<Longrightarrow> appends P (AppYmlGenerator_generateAppYml env this)"
  unfolding AppYmlGenerator_generateAppYml_def Let_def
  by (intro appends_bindM appends_generateCommonHandlerbarsContext)
     (auto split: option.splits intro!: appends_buildHandlebarsTemplate)

lemma appends_generateAppYml:
  "(\<And>c. c \<noteq> Next \<Longrightarrow> P c) \<Longrightarrow> appends P (generateAppYml env context)"
  unfolding generateAppYml_def
  by (intro appends_bindM appends_loadProjectSettings appends_invoke appends_AppYmlGenerator_generateAppYml) auto

lemma appends_forEachSubMigration:
  "(\<And>m. m \<in> set ms \<Longrightarrow> appends P (m context)) \<Longrightarrow> appends P (forEachSubMigration ms context)"
  by (induction ms) auto

lemma appends_migrate:
  "(\<And>c. c \<noteq> Next \<Longrightarrow> P c) \<Longrightarrow> appends P (migrate env context)"
  unfolding migrate_def subMigrations_def
  by (rule appends_forEachSubMigration)
     (auto intro!: appends_preMigration appends_generateSettingsJson appends_generateAppYml)

lemma appends_wrapRunMigration:
  "(\<And>c. c \<noteq> Next \<Longrightarrow> P c) \<Longrightarrow> appends P (wrapRunMigration env context (migrate env))"
  unfolding wrapRunMigration_def showSummaryReport_def
  by (intro appends_tryCatch appends_bindM appends_migrate appends_rollbackMigration) auto

subsection \<open>The steps and the coordinator, unfolded\<close>

lemma checkVersionForMigration_run: "checkVersionForMigration ctx s = (Inr True, s)"
  by (simp add: checkVersionForMigration_def getProjectVersion_def MigrationVersion_def
      bindM_def returnM_def)

lemma drop_calls: "calls s' = calls s @ evs \<Longrightarrow> drop (length (calls s)) (calls s') = evs"
  by simp

lemma appends_migration_path:
  "appends (\<lambda>c. c \<noteq> Next)
     (bindM (invoke CheckUserTasks (checkUserTasks env ctx)) (\<lambda>tasksOk.
        if \<not> tasksOk then returnM (ctx\<lparr>result := Some (Ok None)\<rparr>)
        else
          bindM (invoke MigrationContextCreate (migrationContextCreate env ctx))
            (\<lambda>migrationContext.
          bindM (wrapRunMigration env migrationContext (migrate env)) (\<lambda>_.
          returnM (ctx\<lparr>result := Some (Ok None)\<rparr>)))))"
  by (intro appends_bindM appends_invoke) (auto intro!: appends_wrapRunMigration)

lemma migration_path_result:
  assumes "bindM (invoke CheckUserTasks (checkUserTasks env ctx)) (\<lambda>tasksOk.
        if \<not> tasksOk then returnM (ctx\<lparr>result := Some (Ok None)\<rparr>)
        else
          bindM (invoke MigrationContextCreate (migrationContextCreate env ctx))
            (\<lambda>migrationContext.
          bindM (wrapRunMigration env migrationContext (migrate env)) (\<lambda>_.
          returnM (ctx\<lparr>result := Some (Ok None)\<rparr>)))) s = (Inr ctx', s')"
  shows "ctx' = ctx\<lparr>result := Some (Ok None)\<rparr>"
  using assms
  by (auto simp: bindM_def returnM_def split: prod.splits sum.splits if_splits)

lemma migration_path_run:
  assumes "checkUserTasks env ctx (world s1) = (t, w2)"
  shows "bindM (invoke CheckUserTasks (checkUserTasks env ctx)) (\<lambda>tasksOk.
        if \<not> tasksOk then returnM (ctx\<lparr>result := Some (Ok None)\<rparr>)
        else
          bindM (invoke MigrationContextCreate (migrationContextCreate env ctx))
            (\<lambda>migrationContext.
          bindM (wrapRunMigration env migrationContext (migrate env)) (\<lambda>_.
          returnM (ctx\<lparr>result := Some (Ok None)\<rparr>)))) s1 =
     (case t of
        Inl e \<Rightarrow> (Inl e, \<lparr>world = w2, calls = calls s1 @ [CheckUserTasks]\<rparr>)
      | Inr tasksOk \<Rightarrow>
          if \<not> tasksOk then
            (Inr (ctx\<lparr>result := Some (Ok None)\<rparr>), \<lparr>world = w2, calls = calls s1 @ [CheckUserTasks]\<rparr>)
          else
            (case migrationContextCreate env ctx w2 of
               (Inl e, w3) \<Rightarrow>
                 (Inl e, \<lparr>world = w3, calls = calls s1 @ [CheckUserTasks, MigrationContextCreate]\<rparr>)
             | (Inr migrationContext, w3) \<Rightarrow>
                 (case wrapRunMigration env migrationContext (migrate env)
                         \<lparr>world = w3, calls = calls s1 @ [CheckUserTasks, MigrationContextCreate]\<rparr> of
                    (Inl e, s4) \<Rightarrow> (Inl e, s4)
                  | (Inr u, s4) \<Rightarrow> (Inr (ctx\<lparr>result := Some (Ok None)\<rparr>), s4))))"
  using assms
  by (auto simp: bindM_def invoke_def returnM_def split: prod.splits sum.splits)

lemma ProjectMigratorMWV3_run:
  "ProjectMigratorMWV3 env ctx next s =
     (case checkMethod env ctx (world s) of
        (Inl e, w1) \<Rightarrow> (Inl e, \<lparr>world = w1, calls = calls s @ [CheckMethod]\<rparr>)
      | (Inr needed, w1) \<Rightarrow>
          if needed then
            bindM (invoke CheckUserTasks (checkUserTasks env ctx)) (\<lambda>tasksOk.
              if \<not> tasksOk then returnM (ctx\<lparr>result := Some (Ok None)\<rparr>)
              else
                bindM (invoke MigrationContextCreate (migrationContextCreate env ctx))
                  (\<lambda>migrationContext.
                bindM (wrapRunMigration env migrationContext (migrate env)) (\<lambda>_.
                returnM (ctx\<lparr>result := Some (Ok None)\<rparr>))))
              \<lparr>world = w1, calls = calls s @ [CheckMethod]\<rparr>
          else invoke Next (next ctx) \<lparr>world = w1, calls = calls s @ [CheckMethod]\<rparr>)"
proof -
  obtain m w1 where cm: "checkMethod env ctx (world s) = (m, w1)"
    by (cases "checkMethod env ctx (world s)")
  then have inv: "invoke CheckMethod (checkMethod env ctx) s
      = (m, \<lparr>world = w1, calls = calls s @ [CheckMethod]\<rparr>)"
    by (simp add: invoke_def)
  have version: "bindM (checkVersionForMigration ctx) (\<lambda>versionOk.
          if versionOk then invoke CheckMethod (checkMethod env ctx) else returnM False) s
      = invoke CheckMethod (checkMethod env ctx) s"
    by (simp add: bindM_Inr [OF checkVersionForMigration_run])
  show ?thesis
  proof (cases m)
    case (Inl e)
    with inv version cm show ?thesis
      by (simp add: ProjectMigratorMWV3_def bindM_Inl)
  next
    case (Inr needed)
    with inv version cm show ?thesis
      by (simp add: ProjectMigratorMWV3_def bindM_Inr)
  qed
qed

lemma rollbackMigration_run:
  "rollbackMigration env context s =
     (case cleanModifiedPaths env context (world s) of
        (Inl e, w1) \<Rightarrow> (Inl e, \<lparr>world = w1, calls = calls s @ [CleanModifiedPaths]\<rparr>)
      | (Inr u, w1) \<Rightarrow>
          (case restoreBackup env context w1 of
             (Inl e, w2) \<Rightarrow>
               (Inl e, \<lparr>world = w2, calls = calls s @ [CleanModifiedPaths, RestoreBackup]\<rparr>)
           | (Inr u', w2) \<Rightarrow>
               (case cleanTeamsfx env context w2 of
                  (r, w3) \<Rightarrow>
                    (r, \<lparr>world = w3,
                         calls = calls s @ [CleanModifiedPaths, RestoreBackup, CleanTeamsfx]\<rparr>))))"
  by (simp add: rollbackMigration_def bindM_def invoke_def split: prod.splits sum.splits)

lemma migrate_run:
  "migrate env context s =
     (case preMigration env context s of
        (Inl e, s1) \<Rightarrow> (Inl e, s1)
      | (Inr u, s1) \<Rightarrow>
          (case generateSettingsJson env context s1 of
             (Inl e, s2) \<Rightarrow> (Inl e, s2)
           | (Inr u', s2) \<Rightarrow> generateAppYml env context s2))"
  by (simp add: migrate_def subMigrations_def bindM_def returnM_def split: prod.splits sum.splits)

lemma preMigration_run:
  "preMigration env context s =
     (case backup env context (V2TeamsfxFolder env) (world s) of
        (Inl e, w1) \<Rightarrow> (Inl e, \<lparr>world = w1, calls = calls s @ [Backup (V2TeamsfxFolder env)]\<rparr>)
      | (Inr copied, w1) \<Rightarrow>
          (Inr (), \<lparr>world = w1, calls = calls s @ [Backup (V2TeamsfxFolder env)]\<rparr>))"
  by (simp add: preMigration_def bindM_def invoke_def returnM_def split: prod.splits sum.splits)

lemma wrapRunMigration_throw:
  assumes "exec context s = (Inl e, s1)"
  shows "wrapRunMigration env context exec s =
           (case rollbackMigration env context s1 of
              (Inl e', s2) \<Rightarrow> (Inl e', s2)
            | (Inr u, s2) \<Rightarrow> (Inl e, s2))"
  using assms
  by (simp add: wrapRunMigration_def tryCatch_def bindM_def throwM_def split: prod.splits sum.splits)

lemma generateAppYml_absent:
  assumes "readFile env (pathJoin env [projectPath context, provisionBicepPath]) (world s) = (Inl e, w1)"
  shows "generateAppYml env context s =
           (Inl e, \<lparr>world = w1,
                    calls = calls s @ [ReadFile (pathJoin env [projectPath context, provisionBicepPath])]\<rparr>)"
  using assms by (simp add: generateAppYml_def bindM_def invoke_def)

lemma generateAppYml_first_call:
  "\<exists>evs. calls (snd (generateAppYml env context s))
     = calls s @ ReadFile (pathJoin env [projectPath context, provisionBicepPath]) # evs"
proof -
  let ?p = "pathJoin env [projectPath context, provisionBicepPath]"
  let ?rest = "\<lambda>bicep.
     bindM (loadProjectSettings env (projectPath context)) (\<lambda>settings.
     bindM (AppYmlGenerator_generateAppYml env
              (newAppYmlGenerator settings bicep None)) (\<lambda>appYmlString.
     invoke (FsWriteFile (pathJoin env [SettingsFolderName env, appYmlName]) appYmlString)
       (fsWriteFile env context (pathJoin env [SettingsFolderName env, appYmlName]) appYmlString)))"
  obtain r w1 where rd: "readFile env ?p (world s) = (r, w1)"
    by (cases "readFile env ?p (world s)")
  let ?s1 = "\<lparr>world = w1, calls = calls s @ [ReadFile ?p]\<rparr>"
  from rd have inv: "invoke (ReadFile ?p) (readFile env ?p) s = (r, ?s1)"
    by (simp add: invoke_def)
  show ?thesis
  proof (cases r)
    case (Inl e)
    with rd show ?thesis by (simp add: generateAppYml_absent)
  next
    case (Inr bicep)
    have "appends (\<lambda>c. True) (?rest bicep)"
      by (intro appends_bindM appends_loadProjectSettings appends_invoke
            appends_AppYmlGenerator_generateAppYml) auto
    from appendsD [OF this, of ?s1] obtain evs
      where "calls (snd (?rest bicep ?s1)) = calls ?s1 @ evs" by auto
    moreover from inv Inr have "generateAppYml env context s = ?rest bicep ?s1"
      by (simp add: generateAppYml_def bindM_Inr)
    ultimately show ?thesis by simp
  qed
qed

lemma common_frame:
  assumes "generateCommonHandlerbarsContext env this0 s = (Inr this, s1)"
  shows "oldProjectSettings this = oldProjectSettings this0
       \<and> bicepContent this = bicepContent this0
       \<and> generatorProjectPath this = generatorProjectPath this0
       \<and> ctxPlaceholderMappings (handlebarsContext this)
           = ctxPlaceholderMappings (handlebarsContext this0)"
  using assms
  unfolding generateCommonHandlerbarsContext_def Let_def
  by (auto simp: bindM_def returnM_def throwM_def invoke_def
      split: option.splits prod.splits sum.splits if_splits)

lemma setPlaceholderMapping_frame:
  "oldProjectSettings (setPlaceholderMapping env this p) = oldProjectSettings this
   \<and> bicepContent (setPlaceholderMapping env this p) = bicepContent this"
  by (simp add: setPlaceholderMapping_def split: Result.splits)

lemma foldl_setPlaceholderMapping_frame:
  "oldProjectSettings (foldl (setPlaceholderMapping env) this ps) = oldProjectSettings this
   \<and> bicepContent (foldl (setPlaceholderMapping env) this ps) = bicepContent this"
  by (induction ps arbitrary: this) (simp_all add: setPlaceholderMapping_frame)

lemma generateAzureHandlebarsContext_settings:
  "oldProjectSettings (generateAzureHandlebarsContext env this) = oldProjectSettings this"
  by (simp add: generateAzureHandlebarsContext_def Let_def foldl_setPlaceholderMapping_frame)

lemma setPlaceholderMapping_lookup:
  "map_of (ctxPlaceholderMappings (handlebarsContext (setPlaceholderMapping env this p))) q =
     (if q = p then
        (case namingConverterV3 env p STATE (bicepContent this) of
           Ok v \<Rightarrow> Some v
         | Err e \<Rightarrow> map_of (ctxPlaceholderMappings (handlebarsContext this)) q)
      else map_of (ctxPlaceholderMappings (handlebarsContext this)) q)"
  by (simp add: setPlaceholderMapping_def update_conv' split: Result.splits)

lemma foldl_setPlaceholderMapping_lookup:
  "map_of (ctxPlaceholderMappings (handlebarsContext (foldl (setPlaceholderMapping env) this ps))) q =
     (if q \<in> set ps then
        (case namingConverterV3 env q STATE (bicepContent this) of
           Ok v \<Rightarrow> Some v
         | Err e \<Rightarrow> map_of (ctxPlaceholderMappings (handlebarsContext this)) q)
      else map_of (ctxPlaceholderMappings (handlebarsContext this)) q)"
proof (induction ps arbitrary: this)
  case Nil
  show ?case by simp
next
  case (Cons p ps)
  show ?case
    by (simp add: Cons.IH setPlaceholderMapping_lookup setPlaceholderMapping_frame
        split: Result.splits)
qed

lemma generateAzureHandlebarsContext_lookup:
  "map_of (ctxPlaceholderMappings (handlebarsContext (generateAzureHandlebarsContext env this))) q =
     (if q \<in> set azurePlaceholders then
        (case namingConverterV3 env q STATE (bicepContent this) of
           Ok v \<Rightarrow> Some v
         | Err e \<Rightarrow> map_of (ctxPlaceholderMappings (handlebarsContext this)) q)
      else map_of (ctxPlaceholderMappings (handlebarsContext this)) q)"
  by (simp add: generateAzureHandlebarsContext_def Let_def foldl_setPlaceholderMapping_lookup
      split: Result.splits)

lemma AppYmlGenerator_generateAppYml_run:
  assumes common: "generateCommonHandlerbarsContext env this0 s = (Inr this, s1)"
    and ss: "solutionSettings (oldProjectSettings this0) = Some settings"
    and host: "hostType settings = Some host"
  shows "AppYmlGenerator_generateAppYml env this0 s =
     (if toLowerCase host = ''azure'' then
        (if map_option toLowerCase (programmingLanguage (oldProjectSettings this0)) = Some ''javascript''
            \<or> map_option toLowerCase (programmingLanguage (oldProjectSettings this0)) = Some ''typescript''
         then buildHandlebarsTemplate env (generateAzureHandlebarsContext env this) ''js.ts.app.yml'' s1
         else if map_option toLowerCase (programmingLanguage (oldProjectSettings this0)) = Some ''csharp''
         then buildHandlebarsTemplate env (generateAzureHandlebarsContext env this) ''csharp.app.yml'' s1
         else (Inl (Error unsupportedMessage), s1))
      else if toLowerCase host = ''spfx'' then buildHandlebarsTemplate env this ''spfx.app.yml'' s1
      else (Inl (Error unsupportedMessage), s1))"
proof -
  from common_frame [OF common] have same: "oldProjectSettings this = oldProjectSettings this0"
    by simp
  show ?thesis
    unfolding AppYmlGenerator_generateAppYml_def
    by (subst bindM_Inr [where m = "generateCommonHandlerbarsContext env this0", OF common])
       (simp add: same ss host Let_def generateAzureHandlebarsContext_settings throwM_def
          del: map_option_eq_Some)
qed


lemma generateCommonHandlerbarsContext_no_path:
  assumes "generatorProjectPath this = None"
  shows "isl (fst (generateCommonHandlerbarsContext env this s))"
  using assms
  by (simp add: generateCommonHandlerbarsContext_def Let_def throwM_def split: option.splits)

lemma AppYmlGenerator_generateAppYml_no_path:
  assumes "generatorProjectPath this = None"
  shows "isl (fst (AppYmlGenerator_generateAppYml env this s))"
proof -
  from generateCommonHandlerbarsContext_no_path [OF assms, of env s]
  obtain e s1 where "generateCommonHandlerbarsContext env this s = (Inl e, s1)"
    by (cases "generateCommonHandlerbarsContext env this s";
        cases "fst (generateCommonHandlerbarsContext env this s)") auto
  then show ?thesis
    by (simp add: AppYmlGenerator_generateAppYml_def bindM_def)
qed

text \<open>The step \<^verbatim>\<open>generateAppYml\<close> builds its generator without a project path, so it never returns.\<close>

lemma generateAppYml_throws: "isl (fst (generateAppYml env context s))"
proof -
  have gen: "isl (fst (AppYmlGenerator_generateAppYml env (newAppYmlGenerator settings bicep None) t))"
    for settings bicep t
    by (rule AppYmlGenerator_generateAppYml_no_path) (simp add: newAppYmlGenerator_def)
  have never: False
    if "AppYmlGenerator_generateAppYml env (newAppYmlGenerator settings bicep None) t = (Inr x, t')"
    for settings bicep t x t'
    using gen [of settings bicep t] that by simp
  show ?thesis
    unfolding generateAppYml_def bindM_def
    by (auto split: prod.splits sum.splits dest: never)
qed

section \<open>The claims\<close>

subsection \<open>Rollback and the error the caller sees\<close>

text \<open>
  C1 (amended). When the migration that \<^verbatim>\<open>wrapRunMigration\<close> runs throws \<open>e\<close>, the
  coordinator runs \<^verbatim>\<open>rollbackMigration\<close> from the state the failure left. When the
  rollback returns, the caller gets the original error \<open>e\<close>, unwrapped; when the rollback
  itself throws \<open>e'\<close>, the caller gets \<open>e'\<close>.
\<close>

theorem wrapRunMigration_rollback_then_rethrow:
  assumes "exec context s = (Inl e, s1)"
  shows "wrapRunMigration env context exec s =
           (case rollbackMigration env context s1 of
              (Inl e', s2) \<Rightarrow> (Inl e', s2)
            | (Inr u, s2) \<Rightarrow> (Inl e, s2))"
  using assms by (rule wrapRunMigration_throw)

text \<open>
  On a project without its bicep file the third step throws \<^verbatim>\<open>ENOENT\<close>; the rollback
  works, its three calls follow the failed read, and the caller gets \<^verbatim>\<open>ENOENT\<close>.
\<close>

theorem wrapRunMigration_rollback_then_rethrow_witness:
  "fst (migrate (testEnv False (testSettings ''Azure'' (Some ''typescript''))) testContext (testState []))
     = Inl (FsError ''ENOENT'')
   \<and> fst (wrapRunMigration (testEnv False (testSettings ''Azure'' (Some ''typescript''))) testContext
            (migrate (testEnv False (testSettings ''Azure'' (Some ''typescript'')))) (testState []))
     = Inl (FsError ''ENOENT'')
   \<and> drop 4 (calls (snd (wrapRunMigration (testEnv False (testSettings ''Azure'' (Some ''typescript'')))
            testContext (migrate (testEnv False (testSettings ''Azure'' (Some ''typescript''))))
            (testState []))))
     = [ReadFile ''proj/templates/azure/provision.bicep'', CleanModifiedPaths, RestoreBackup,
        CleanTeamsfx]"
proof -
  let ?env = "testEnv False (testSettings ''Azure'' (Some ''typescript''))"
  let ?failed = "snd (migrate ?env testContext (testState []))"
  have thrown: "fst (migrate ?env testContext (testState [])) = Inl (FsError ''ENOENT'')"
    by code_simp
  then have run: "migrate ?env testContext (testState []) = (Inl (FsError ''ENOENT''), ?failed)"
    by (rule run_Inl)
  have rollback: "(case rollbackMigration ?env testContext ?failed of
                     (Inl e', s2) \<Rightarrow> (Inl e', s2)
                   | (Inr u, s2) \<Rightarrow> (Inl (FsError ''ENOENT''), s2))
      = (Inl (FsError ''ENOENT'') :: error + unit,
         \<lparr>world = world ?failed,
          calls = calls ?failed @ [CleanModifiedPaths, RestoreBackup, CleanTeamsfx]\<rparr>)"
    by code_simp
  have log: "drop 4 (calls ?failed) = [ReadFile ''proj/templates/azure/provision.bicep'']"
    and len: "length (calls ?failed) = 5"
    by code_simp+
  from wrapRunMigration_rollback_then_rethrow [of "migrate ?env" testContext "testState []", OF run, of ?env]
    rollback
  have "wrapRunMigration ?env testContext (migrate ?env) (testState [])
      = (Inl (FsError ''ENOENT''),
         \<lparr>world = world ?failed,
          calls = calls ?failed @ [CleanModifiedPaths, RestoreBackup, CleanTeamsfx]\<rparr>)"
    by simp
  with thrown log len show ?thesis by simp
qed

text \<open>
  The claim as stated fails: with a \<^verbatim>\<open>cleanModifiedPaths\<close> that throws \<^verbatim>\<open>EPERM\<close>, the
  migration fails with \<^verbatim>\<open>ENOENT\<close> and the caller of \<^verbatim>\<open>wrapRunMigration\<close> gets \<^verbatim>\<open>EPERM\<close>.
\<close>

theorem wrapRunMigration_rollback_error_masks:
  "fst (migrate (testEnv True (testSettings ''Azure'' (Some ''typescript''))) testContext (testState []))
     = Inl (FsError ''ENOENT'')
   \<and> fst (wrapRunMigration (testEnv True (testSettings ''Azure'' (Some ''typescript''))) testContext
            (migrate (testEnv True (testSettings ''Azure'' (Some ''typescript'')))) (testState []))
     = Inl (FsError ''EPERM'')"
  by code_simp

text \<open>
  C2 (amended). \<^verbatim>\<open>rollbackMigration\<close> calls \<^verbatim>\<open>cleanModifiedPaths\<close>, then
  \<^verbatim>\<open>restoreBackup\<close>, then \<^verbatim>\<open>cleanTeamsfx\<close>, in that order, each one only when the one
  before it returned: the first of them that throws ends the rollback with its error, and
  the operations after it are not called.
\<close>

theorem rollbackMigration_fail_fast_sequence:
  "rollbackMigration env context s =
     (case cleanModifiedPaths env context (world s) of
        (Inl e, w1) \<Rightarrow> (Inl e, \<lparr>world = w1, calls = calls s @ [CleanModifiedPaths]\<rparr>)
      | (Inr u, w1) \<Rightarrow>
          (case restoreBackup env context w1 of
             (Inl e, w2) \<Rightarrow>
               (Inl e, \<lparr>world = w2, calls = calls s @ [CleanModifiedPaths, RestoreBackup]\<rparr>)
           | (Inr u', w2) \<Rightarrow>
               (case cleanTeamsfx env context w2 of
                  (r, w3) \<Rightarrow>
                    (r, \<lparr>world = w3,
                         calls = calls s @ [CleanModifiedPaths, RestoreBackup, CleanTeamsfx]\<rparr>))))"
  by (rule rollbackMigration_run)

text \<open>
  The claim as stated fails: when \<^verbatim>\<open>cleanModifiedPaths\<close> throws, the log of the rollback
  holds that call alone; \<^verbatim>\<open>restoreBackup\<close> and \<^verbatim>\<open>cleanTeamsfx\<close> are not called.
\<close>

theorem rollbackMigration_abandons_sequence:
  "rollbackMigration (testEnv True (testSettings ''Azure'' (Some ''typescript''))) testContext
     (testState testFiles)
   = (Inl (FsError ''EPERM''), \<lparr>world = testFiles, calls = [CleanModifiedPaths]\<rparr>)"
  by code_simp

subsection \<open>The pipeline\<close>

text \<open>
  C3. \<^verbatim>\<open>migrate\<close> runs \<^verbatim>\<open>preMigration\<close> (the backup of the legacy folder), then
  \<^verbatim>\<open>generateSettingsJson\<close>, then \<^verbatim>\<open>generateAppYml\<close>, each from the state the one before
  it left; a step that throws ends the run with its error in the state it left, so no
  later step runs.
\<close>

theorem migrate_three_steps_fail_fast:
  "migrate env context s =
     (case preMigration env context s of
        (Inl e, s1) \<Rightarrow> (Inl e, s1)
      | (Inr u, s1) \<Rightarrow>
          (case generateSettingsJson env context s1 of
             (Inl e, s2) \<Rightarrow> (Inl e, s2)
           | (Inr u', s2) \<Rightarrow> generateAppYml env context s2))
   \<and> preMigration env context s =
     (case backup env context (V2TeamsfxFolder env) (world s) of
        (Inl e, w1) \<Rightarrow> (Inl e, \<lparr>world = w1, calls = calls s @ [Backup (V2TeamsfxFolder env)]\<rparr>)
      | (Inr copied, w1) \<Rightarrow>
          (Inr (), \<lparr>world = w1, calls = calls s @ [Backup (V2TeamsfxFolder env)]\<rparr>))"
proof (intro conjI)
  show "migrate env context s =
     (case preMigration env context s of
        (Inl e, s1) \<Rightarrow> (Inl e, s1)
      | (Inr u, s1) \<Rightarrow>
          (case generateSettingsJson env context s1 of
             (Inl e, s2) \<Rightarrow> (Inl e, s2)
           | (Inr u', s2) \<Rightarrow> generateAppYml env context s2))"
    by (rule migrate_run)
  show "preMigration env context s =
     (case backup env context (V2TeamsfxFolder env) (world s) of
        (Inl e, w1) \<Rightarrow> (Inl e, \<lparr>world = w1, calls = calls s @ [Backup (V2TeamsfxFolder env)]\<rparr>)
      | (Inr copied, w1) \<Rightarrow>
          (Inr (), \<lparr>world = w1, calls = calls s @ [Backup (V2TeamsfxFolder env)]\<rparr>))"
    by (rule preMigration_run)
qed


subsection \<open>The settings file\<close>




subsection \<open>The version check\<close>

text \<open>
  C5 (the code departs from the claim). \<^verbatim>\<open>checkVersionForMigration\<close> answers true for every
  project, since \<^verbatim>\<open>getProjectVersion\<close> does not read the project. On a project whose
  files declare version 3.0.0, a call that passes the method and user task checks runs the
  migration: it backs up the legacy folder, ensures the settings folder and writes
  \<^verbatim>\<open>teamsfx/settings.json\<close>; the third step then throws, the rollback runs, the middleware
  rejects with that error, and the wrapped operation is not called.
\<close>

theorem migration_runs_for_any_declared_version:
  "checkVersionForMigration ctx s = (Inr True, s)
   \<and> take 6 (calls (snd (ProjectMigratorMWV3 (testEnv False (testSettings ''Azure'' (Some ''typescript'')))
        (testHookContext ''provisionResources'') testNext (testState migratedFiles))))
     = [CheckMethod, CheckUserTasks, MigrationContextCreate, Backup ''.fx'',
        LoadProjectSettingsByProjectPathV2 ''proj'' True, FsEnsureDir ''teamsfx'']
   \<and> (case calls (snd (ProjectMigratorMWV3 (testEnv False (testSettings ''Azure'' (Some ''typescript'')))
        (testHookContext ''provisionResources'') testNext (testState migratedFiles))) ! 6 of
        FsWriteFile file content \<Rightarrow> file
      | other \<Rightarrow> [])
     = ''teamsfx/settings.json''
   \<and> drop 7 (calls (snd (ProjectMigratorMWV3 (testEnv False (testSettings ''Azure'' (Some ''typescript'')))
        (testHookContext ''provisionResources'') testNext (testState migratedFiles))))
     = [ReadFile ''proj/templates/azure/provision.bicep'',
        LoadProjectSettingsByProjectPathV2 ''proj'' True,
        CleanModifiedPaths, RestoreBackup, CleanTeamsfx]
   \<and> fst (ProjectMigratorMWV3 (testEnv False (testSettings ''Azure'' (Some ''typescript'')))
        (testHookContext ''provisionResources'') testNext (testState migratedFiles))
     = Inl (TypeError ''The path argument must be of type string. Received undefined'')"
proof (intro conjI)
  show "checkVersionForMigration ctx s = (Inr True, s)"
    by (rule checkVersionForMigration_run)
qed code_simp+

text \<open>
  C7 (the code departs from the claim). \<^verbatim>\<open>getProjectVersion\<close> returns \<^verbatim>\<open>2.1.0\<close> for every
  hook context in every state and leaves the state as it is: it reads nothing and never
  fails, also on a project directory that holds no file at all.
\<close>

theorem getProjectVersion_never_fails:
  "getProjectVersion ctx s = (Inr ''2.1.0'', s)
   \<and> getProjectVersion (testHookContext ''provisionResources'') (testState [])
     = (Inr ''2.1.0'', testState [])"
  by (simp add: getProjectVersion_def returnM_def)

subsection \<open>Template selection\<close>

text \<open>
  C6. Once the common context is assembled, \<^verbatim>\<open>AppYmlGenerator.generateAppYml\<close> builds the
  template that \<open>specTemplateId\<close> gives for the host type and the programming language, and
  throws the error "The current tooling cannot upgrade your project ..." when there is
  none; there is none exactly when the host type is neither \<^verbatim>\<open>azure\<close> nor \<^verbatim>\<open>spfx\<close>, or
  is \<^verbatim>\<open>azure\<close> with a language other than \<^verbatim>\<open>javascript\<close>, \<^verbatim>\<open>typescript\<close> and \<^verbatim>\<open>csharp\<close>
  (all compared in lower case).
\<close>

theorem generateAppYml_template_selection:
  assumes common: "generateCommonHandlerbarsContext env this0 s = (Inr this, s1)"
    and ss: "solutionSettings (oldProjectSettings this0) = Some settings"
    and host: "hostType settings = Some host"
  shows "AppYmlGenerator_generateAppYml env this0 s =
           (case specTemplateId host (programmingLanguage (oldProjectSettings this0)) of
              None \<Rightarrow> (Inl (Error unsupportedMessage), s1)
            | Some templateId \<Rightarrow>
                buildHandlebarsTemplate env
                  (if toLowerCase host = ''azure'' then generateAzureHandlebarsContext env this else this)
                  templateId s1)
       \<and> (specTemplateId host language = None \<longleftrightarrow>
            (toLowerCase host \<noteq> ''azure'' \<and> toLowerCase host \<noteq> ''spfx'')
            \<or> (toLowerCase host = ''azure''
                \<and> map_option toLowerCase language
                    \<notin> {Some ''javascript'', Some ''typescript'', Some ''csharp''}))"
proof
  show "AppYmlGenerator_generateAppYml env this0 s =
           (case specTemplateId host (programmingLanguage (oldProjectSettings this0)) of
              None \<Rightarrow> (Inl (Error unsupportedMessage), s1)
            | Some templateId \<Rightarrow>
                buildHandlebarsTemplate env
                  (if toLowerCase host = ''azure'' then generateAzureHandlebarsContext env this else this)
                  templateId s1)"
    unfolding AppYmlGenerator_generateAppYml_run [OF common ss host] specTemplateId_def
    by (simp del: map_option_eq_Some)
  show "specTemplateId host language = None \<longleftrightarrow>
            (toLowerCase host \<noteq> ''azure'' \<and> toLowerCase host \<noteq> ''spfx'')
            \<or> (toLowerCase host = ''azure''
                \<and> map_option toLowerCase language
                    \<notin> {Some ''javascript'', Some ''typescript'', Some ''csharp''})"
    by (auto simp: specTemplateId_def)
qed

text \<open>
  A host type \<^verbatim>\<open>Unknown\<close>: after the two manifest checks of the common context the
  generator throws the error, and no template is read.
\<close>

theorem generateAppYml_template_selection_witness:
  "AppYmlGenerator_generateAppYml (testEnv False (testSettings ''Unknown'' (Some ''typescript'')))
     (newAppYmlGenerator (testSettings ''Unknown'' (Some ''typescript'')) ''bicep'' (Some ''proj''))
     (testState testFiles)
   = (Inl (Error unsupportedMessage),
      \<lparr>world = testFiles,
       calls = [PathExists ''proj/aad.manifest.json'', PathExists ''proj/appPackage/manifest.json'']\<rparr>)
   \<and> specTemplateId ''Unknown'' (Some ''typescript'') = None
   \<and> specTemplateId ''Azure'' (Some ''Python'') = None
   \<and> specTemplateId ''Azure'' (Some ''TypeScript'') = Some ''js.ts.app.yml''"
proof -
  let ?settings = "testSettings ''Unknown'' (Some ''typescript'')"
  let ?env = "testEnv False ?settings"
  let ?gen = "newAppYmlGenerator ?settings ''bicep'' (Some ''proj'')"
  let ?common = "generateCommonHandlerbarsContext ?env ?gen (testState testFiles)"
  have "\<not> isl (fst ?common)" by code_simp
  then have common: "?common = (Inr (projr (fst ?common)), snd ?common)"
    by (rule run_Inr)
  have ss: "solutionSettings (oldProjectSettings ?gen)
      = Some \<lparr>hostType = Some ''Unknown'',
              activeResourcePlugins = Some [''fx-resource-frontend-hosting'', ''fx-resource-bot'']\<rparr>"
    and host: "hostType \<lparr>hostType = Some ''Unknown'',
              activeResourcePlugins = Some [''fx-resource-frontend-hosting'', ''fx-resource-bot'']\<rparr>
      = Some ''Unknown''"
    and language: "programmingLanguage (oldProjectSettings ?gen) = Some ''typescript''"
    and none: "specTemplateId ''Unknown'' (Some ''typescript'') = None"
    and others: "specTemplateId ''Azure'' (Some ''Python'') = None"
      "specTemplateId ''Azure'' (Some ''TypeScript'') = Some ''js.ts.app.yml''"
    and after: "snd ?common =
      \<lparr>world = testFiles,
       calls = [PathExists ''proj/aad.manifest.json'', PathExists ''proj/appPackage/manifest.json'']\<rparr>"
    by code_simp+
  from generateAppYml_template_selection [OF common ss host]
  have "AppYmlGenerator_generateAppYml ?env ?gen (testState testFiles) =
      (case specTemplateId ''Unknown'' (programmingLanguage (oldProjectSettings ?gen)) of
         None \<Rightarrow> (Inl (Error unsupportedMessage), snd ?common)
       | Some templateId \<Rightarrow>
           buildHandlebarsTemplate ?env
             (if toLowerCase ''Unknown'' = ''azure''
              then generateAzureHandlebarsContext ?env (projr (fst ?common))
              else projr (fst ?common))
             templateId (snd ?common))"
    by blast
  then have "AppYmlGenerator_generateAppYml ?env ?gen (testState testFiles) =
      (Inl (Error unsupportedMessage), snd ?common)"
    unfolding language none by simp
  with after none others show ?thesis by simp
qed

subsection \<open>Placeholders\<close>

text \<open>
  C8. For an Azure project in javascript, typescript or csharp, the generator renders its
  template with the context \<^verbatim>\<open>generateAzureHandlebarsContext\<close> builds, whatever
  \<^verbatim>\<open>namingConverterV3\<close> answers: in that context a placeholder is mapped exactly when it is
  one of the nine Azure placeholders and its resolution against the bicep text succeeded,
  and then to the resolved value; a placeholder whose resolution failed is absent.
\<close>

theorem placeholders_nonfatal:
  assumes common:
      "generateCommonHandlerbarsContext env (newAppYmlGenerator settings bicep path) s = (Inr this, s1)"
    and ss: "solutionSettings settings = Some azureSettings"
    and host: "hostType azureSettings = Some host"
    and azure: "toLowerCase host = ''azure''"
    and lang: "map_option toLowerCase (programmingLanguage settings)
                 \<in> {Some ''javascript'', Some ''typescript'', Some ''csharp''}"
  shows "map_of (ctxPlaceholderMappings (handlebarsContext (generateAzureHandlebarsContext env this)))
            placeholder =
           (if placeholder \<in> set azurePlaceholders then
              (case namingConverterV3 env placeholder STATE bicep of
                 Ok v \<Rightarrow> Some v
               | Err e \<Rightarrow> None)
            else None)
       \<and> AppYmlGenerator_generateAppYml env (newAppYmlGenerator settings bicep path) s =
           buildHandlebarsTemplate env (generateAzureHandlebarsContext env this)
             (if map_option toLowerCase (programmingLanguage settings) = Some ''csharp''
              then ''csharp.app.yml'' else ''js.ts.app.yml'') s1"
proof
  from common_frame [OF common]
  have "bicepContent this = bicep" "ctxPlaceholderMappings (handlebarsContext this) = []"
    by (simp_all add: newAppYmlGenerator_def)
  then show "map_of (ctxPlaceholderMappings (handlebarsContext (generateAzureHandlebarsContext env this)))
            placeholder =
           (if placeholder \<in> set azurePlaceholders then
              (case namingConverterV3 env placeholder STATE bicep of
                 Ok v \<Rightarrow> Some v
               | Err e \<Rightarrow> None)
            else None)"
    by (simp add: generateAzureHandlebarsContext_lookup split: Result.splits)
  have ss': "solutionSettings (oldProjectSettings (newAppYmlGenerator settings bicep path))
      = Some azureSettings"
    and old: "oldProjectSettings (newAppYmlGenerator settings bicep path) = settings"
    using ss by (simp_all add: newAppYmlGenerator_def)
  from lang azure show "AppYmlGenerator_generateAppYml env (newAppYmlGenerator settings bicep path) s =
           buildHandlebarsTemplate env (generateAzureHandlebarsContext env this)
             (if map_option toLowerCase (programmingLanguage settings) = Some ''csharp''
              then ''csharp.app.yml'' else ''js.ts.app.yml'') s1"
    by (auto simp: AppYmlGenerator_generateAppYml_run [OF common ss' host] old
        simp del: map_option_eq_Some)
qed

text \<open>
  In the test environment only the storage resource id resolves: it is in the context,
  the bot resource id is not, and the template is rendered all the same.
\<close>

theorem placeholders_nonfatal_witness:
  "map_of (ctxPlaceholderMappings (handlebarsContext
      (generateAzureHandlebarsContext (testEnv False (testSettings ''Azure'' (Some ''TypeScript'')))
         (projr (fst (generateCommonHandlerbarsContext
            (testEnv False (testSettings ''Azure'' (Some ''TypeScript'')))
            (newAppYmlGenerator (testSettings ''Azure'' (Some ''TypeScript'')) ''bicep'' (Some ''proj''))
            (testState testFiles)))))))
     ''state.fx-resource-frontend-hosting.storageResourceId''
   = Some ''provisionOutputs.frontendHostingOutput.storageResourceId''
   \<and> map_of (ctxPlaceholderMappings (handlebarsContext
      (generateAzureHandlebarsContext (testEnv False (testSettings ''Azure'' (Some ''TypeScript'')))
         (projr (fst (generateCommonHandlerbarsContext
            (testEnv False (testSettings ''Azure'' (Some ''TypeScript'')))
            (newAppYmlGenerator (testSettings ''Azure'' (Some ''TypeScript'')) ''bicep'' (Some ''proj''))
            (testState testFiles)))))))
     ''state.fx-resource-bot.resourceId''
   = None
   \<and> AppYmlGenerator_generateAppYml (testEnv False (testSettings ''Azure'' (Some ''TypeScript'')))
       (newAppYmlGenerator (testSettings ''Azure'' (Some ''TypeScript'')) ''bicep'' (Some ''proj''))
       (testState testFiles)
   = (Inr ''version: 1.0.0'',
      \<lparr>world = testFiles,
       calls = [PathExists ''proj/aad.manifest.json'', PathExists ''proj/appPackage/manifest.json'',
                ReadFile ''templates/core/v3Migration/js.ts.app.yml'']\<rparr>)"
proof -
  let ?settings = "testSettings ''Azure'' (Some ''TypeScript'')"
  let ?env = "testEnv False ?settings"
  let ?gen = "newAppYmlGenerator ?settings ''bicep'' (Some ''proj'')"
  let ?common = "generateCommonHandlerbarsContext ?env ?gen (testState testFiles)"
  let ?azureSettings = "\<lparr>hostType = Some ''Azure'',
      activeResourcePlugins = Some [''fx-resource-frontend-hosting'', ''fx-resource-bot'']\<rparr>"
  have "\<not> isl (fst ?common)" by code_simp
  then have common: "?common = (Inr (projr (fst ?common)), snd ?common)"
    by (rule run_Inr)
  have ss: "solutionSettings ?settings = Some ?azureSettings"
    and host: "hostType ?azureSettings = Some ''Azure''"
    and azure: "toLowerCase ''Azure'' = ''azure''"
    and lower: "map_option toLowerCase (programmingLanguage ?settings) = Some ''typescript''"
    by code_simp+
  from lower have lang: "map_option toLowerCase (programmingLanguage ?settings)
      \<in> {Some ''javascript'', Some ''typescript'', Some ''csharp''}"
    by simp
  have storage: "''state.fx-resource-frontend-hosting.storageResourceId'' \<in> set azurePlaceholders"
    and bot: "''state.fx-resource-bot.resourceId'' \<in> set azurePlaceholders"
    by (simp_all add: azurePlaceholders_def)
  have resolved: "namingConverterV3 ?env ''state.fx-resource-frontend-hosting.storageResourceId'' STATE ''bicep''
      = Ok ''provisionOutputs.frontendHostingOutput.storageResourceId''"
    and failed: "namingConverterV3 ?env ''state.fx-resource-bot.resourceId'' STATE ''bicep''
      = Err (FxError ''FailedToConvertV2ConfigNameToV3'')"
    and rendered: "buildHandlebarsTemplate ?env
        (generateAzureHandlebarsContext ?env (projr (fst ?common))) ''js.ts.app.yml'' (snd ?common)
      = (Inr ''version: 1.0.0'',
         \<lparr>world = testFiles,
          calls = [PathExists ''proj/aad.manifest.json'', PathExists ''proj/appPackage/manifest.json'',
                   ReadFile ''templates/core/v3Migration/js.ts.app.yml'']\<rparr>)"
    by code_simp+
  note inst = placeholders_nonfatal [OF common ss host azure lang]
  from inst [of "''state.fx-resource-frontend-hosting.storageResourceId''"] storage resolved
  have one: "map_of (ctxPlaceholderMappings (handlebarsContext
      (generateAzureHandlebarsContext ?env (projr (fst ?common)))))
      ''state.fx-resource-frontend-hosting.storageResourceId''
      = Some ''provisionOutputs.frontendHostingOutput.storageResourceId''"
    by simp
  from inst [of "''state.fx-resource-bot.resourceId''"] bot failed
  have two: "map_of (ctxPlaceholderMappings (handlebarsContext
      (generateAzureHandlebarsContext ?env (projr (fst ?common)))))
      ''state.fx-resource-bot.resourceId'' = None"
    by simp
  from inst [of "[]"] lower rendered
  have three: "AppYmlGenerator_generateAppYml ?env ?gen (testState testFiles)
      = (Inr ''version: 1.0.0'',
         \<lparr>world = testFiles,
          calls = [PathExists ''proj/aad.manifest.json'', PathExists ''proj/appPackage/manifest.json'',
                   ReadFile ''templates/core/v3Migration/js.ts.app.yml'']\<rparr>)"
    by simp
  from one two three show ?thesis by blast
qed

subsection \<open>The middleware and the wrapped operation\<close>

text \<open>
  C9 (amended). \<^verbatim>\<open>ProjectMigratorMWV3\<close> checks the version, which always passes, and then
  the method. When \<^verbatim>\<open>checkMethod\<close> answers true the middleware never calls \<^verbatim>\<open>next\<close>, and
  whenever it returns, the hook result is \<^verbatim>\<open>ok(undefined)\<close>: it returns so at once when the
  user task check fails, and otherwise it creates the migration context and runs the
  migration through \<^verbatim>\<open>wrapRunMigration\<close>, returning with \<^verbatim>\<open>ok(undefined)\<close> when that returns
  and rejecting with its error, the result unset, when that throws. When \<^verbatim>\<open>next\<close> is
  called, \<^verbatim>\<open>checkMethod\<close> has answered false, so no migration is needed, and the middleware
  does nothing but that call.
\<close>

theorem ProjectMigratorMWV3_next:
  assumes run: "ProjectMigratorMWV3 env ctx next s = (r, s')"
    and cm: "checkMethod env ctx (world s) = (m, w1)"
  shows "(m = Inr True \<longrightarrow>
            Next \<notin> set (drop (length (calls s)) (calls s')) \<and>
            (\<forall>ctx'. r = Inr ctx' \<longrightarrow> ctx' = ctx\<lparr>result := Some (Ok None)\<rparr>))
       \<and> (Next \<in> set (drop (length (calls s)) (calls s')) \<longrightarrow>
            m = Inr False \<and>
            (r, s') = invoke Next (next ctx) \<lparr>world = w1, calls = calls s @ [CheckMethod]\<rparr>)
       \<and> (\<forall>w2. m = Inr True \<longrightarrow> checkUserTasks env ctx w1 = (Inr False, w2) \<longrightarrow>
            (r, s') = (Inr (ctx\<lparr>result := Some (Ok None)\<rparr>),
                       \<lparr>world = w2, calls = calls s @ [CheckMethod, CheckUserTasks]\<rparr>))
       \<and> (\<forall>w2 migrationContext w3.
            m = Inr True \<longrightarrow> checkUserTasks env ctx w1 = (Inr True, w2) \<longrightarrow>
            migrationContextCreate env ctx w2 = (Inr migrationContext, w3) \<longrightarrow>
            (r, s') =
              (case wrapRunMigration env migrationContext (migrate env)
                      \<lparr>world = w3,
                       calls = calls s @ [CheckMethod, CheckUserTasks, MigrationContextCreate]\<rparr> of
                 (Inl e, s4) \<Rightarrow> (Inl e, s4)
               | (Inr u, s4) \<Rightarrow> (Inr (ctx\<lparr>result := Some (Ok None)\<rparr>), s4)))"
proof -
  let ?s1 = "\<lparr>world = w1, calls = calls s @ [CheckMethod]\<rparr>"
  let ?path = "bindM (invoke CheckUserTasks (checkUserTasks env ctx)) (\<lambda>tasksOk.
        if \<not> tasksOk then returnM (ctx\<lparr>result := Some (Ok None)\<rparr>)
        else
          bindM (invoke MigrationContextCreate (migrationContextCreate env ctx))
            (\<lambda>migrationContext.
          bindM (wrapRunMigration env migrationContext (migrate env)) (\<lambda>_.
          returnM (ctx\<lparr>result := Some (Ok None)\<rparr>))))"
  have path: "?path ?s1 = (r, s')" if "m = Inr True"
    using run cm that by (simp add: ProjectMigratorMWV3_run)
  have quiet: "Next \<notin> set (drop (length (calls s)) (calls s'))"
    and res: "\<forall>ctx'. r = Inr ctx' \<longrightarrow> ctx' = ctx\<lparr>result := Some (Ok None)\<rparr>"
    if yes: "m = Inr True"
  proof -
    from appendsD [OF appends_migration_path, of env ctx ?s1] path [OF yes] obtain evs
      where "calls s' = calls ?s1 @ evs" "list_all (\<lambda>c. c \<noteq> Next) evs" by auto
    then show "Next \<notin> set (drop (length (calls s)) (calls s'))"
      by (auto simp: list_all_iff)
    from path [OF yes] show "\<forall>ctx'. r = Inr ctx' \<longrightarrow> ctx' = ctx\<lparr>result := Some (Ok None)\<rparr>"
      by (auto dest: migration_path_result)
  qed
  have called: "m = Inr False \<and> (r, s') = invoke Next (next ctx) ?s1"
    if nx: "Next \<in> set (drop (length (calls s)) (calls s'))"
  proof (cases m)
    case (Inl e)
    with run cm have "s' = ?s1" by (simp add: ProjectMigratorMWV3_run)
    with nx show ?thesis by simp
  next
    case (Inr needed)
    show ?thesis
    proof (cases needed)
      case True
      with Inr quiet nx show ?thesis by simp
    next
      case False
      with Inr run cm show ?thesis by (simp add: ProjectMigratorMWV3_run)
    qed
  qed
  have skipped: "(r, s') = (Inr (ctx\<lparr>result := Some (Ok None)\<rparr>),
                       \<lparr>world = w2, calls = calls s @ [CheckMethod, CheckUserTasks]\<rparr>)"
    if yes: "m = Inr True" and tasks: "checkUserTasks env ctx w1 = (Inr False, w2)" for w2
    using path [OF yes] migration_path_run [of env ctx ?s1 "Inr False" w2] tasks by simp
  have migrated: "(r, s') =
              (case wrapRunMigration env migrationContext (migrate env)
                      \<lparr>world = w3,
                       calls = calls s @ [CheckMethod, CheckUserTasks, MigrationContextCreate]\<rparr> of
                 (Inl e, s4) \<Rightarrow> (Inl e, s4)
               | (Inr u, s4) \<Rightarrow> (Inr (ctx\<lparr>result := Some (Ok None)\<rparr>), s4))"
    if yes: "m = Inr True" and tasks: "checkUserTasks env ctx w1 = (Inr True, w2)"
      and create: "migrationContextCreate env ctx w2 = (Inr migrationContext, w3)"
    for w2 migrationContext w3
    using path [OF yes] migration_path_run [of env ctx ?s1 "Inr True" w2] tasks create by simp
  from quiet res called skipped migrated show ?thesis by blast
qed

text \<open>
  A call of \<^verbatim>\<open>executeUserTask\<close> on the test project fails the user task check: the
  middleware returns with \<^verbatim>\<open>ok(undefined)\<close> and does not reach the wrapped operation. A
  call of \<^verbatim>\<open>getProjectConfig\<close> is passed on to it.
\<close>

theorem ProjectMigratorMWV3_next_witness:
  "ProjectMigratorMWV3 (testEnv False (testSettings ''Azure'' (Some ''typescript'')))
       (testHookContext ''executeUserTask'') testNext (testState testFiles)
     = (Inr ((testHookContext ''executeUserTask'')\<lparr>result := Some (Ok None)\<rparr>),
        \<lparr>world = testFiles, calls = [CheckMethod, CheckUserTasks]\<rparr>)
   \<and> Next \<notin> set (calls (snd (ProjectMigratorMWV3 (testEnv False (testSettings ''Azure'' (Some ''typescript'')))
       (testHookContext ''provisionResources'') testNext (testState testFiles))))
   \<and> ProjectMigratorMWV3 (testEnv False (testSettings ''Azure'' (Some ''typescript'')))
       (testHookContext ''getProjectConfig'') testNext (testState testFiles)
     = (Inr ((testHookContext ''getProjectConfig'')\<lparr>result := Some (Ok (Some (JStr ''done'')))\<rparr>),
        \<lparr>world = testFiles, calls = [CheckMethod, Next]\<rparr>)"
proof -
  let ?env = "testEnv False (testSettings ''Azure'' (Some ''typescript''))"
  let ?skipped = "ProjectMigratorMWV3 ?env (testHookContext ''executeUserTask'') testNext
      (testState testFiles)"
  let ?migrated = "ProjectMigratorMWV3 ?env (testHookContext ''provisionResources'') testNext
      (testState testFiles)"
  let ?passed = "ProjectMigratorMWV3 ?env (testHookContext ''getProjectConfig'') testNext
      (testState testFiles)"
  have run0: "?skipped = (fst ?skipped, snd ?skipped)"
    and run1: "?migrated = (fst ?migrated, snd ?migrated)"
    and run2: "?passed = (fst ?passed, snd ?passed)"
    by simp_all
  have cm0: "checkMethod ?env (testHookContext ''executeUserTask'') (world (testState testFiles))
      = (Inr True, testFiles)"
    and tasks0: "checkUserTasks ?env (testHookContext ''executeUserTask'') testFiles
      = (Inr False, testFiles)"
    and cm1: "checkMethod ?env (testHookContext ''provisionResources'') (world (testState testFiles))
      = (Inr True, testFiles)"
    and cm2: "checkMethod ?env (testHookContext ''getProjectConfig'') (world (testState testFiles))
      = (Inr False, testFiles)"
    and called: "Next \<in> set (drop (length (calls (testState testFiles))) (calls (snd ?passed)))"
    and start: "calls (testState testFiles) = []"
    and passed: "invoke Next (testNext (testHookContext ''getProjectConfig''))
        \<lparr>world = testFiles, calls = calls (testState testFiles) @ [CheckMethod]\<rparr>
      = (Inr ((testHookContext ''getProjectConfig'')\<lparr>result := Some (Ok (Some (JStr ''done'')))\<rparr>),
         \<lparr>world = testFiles, calls = [CheckMethod, Next]\<rparr>)"
    by code_simp+
  from ProjectMigratorMWV3_next [OF run0 cm0] tasks0
  have "(fst ?skipped, snd ?skipped)
      = (Inr ((testHookContext ''executeUserTask'')\<lparr>result := Some (Ok None)\<rparr>),
         \<lparr>world = testFiles, calls = calls (testState testFiles) @ [CheckMethod, CheckUserTasks]\<rparr>)"
    by blast
  with start have zero: "?skipped
      = (Inr ((testHookContext ''executeUserTask'')\<lparr>result := Some (Ok None)\<rparr>),
         \<lparr>world = testFiles, calls = [CheckMethod, CheckUserTasks]\<rparr>)"
    by simp
  from ProjectMigratorMWV3_next [OF run1 cm1] start
  have one: "Next \<notin> set (calls (snd ?migrated))"
    by simp
  from ProjectMigratorMWV3_next [OF run2 cm2] called
  have "(fst ?passed, snd ?passed)
      = invoke Next (testNext (testHookContext ''getProjectConfig''))
          \<lparr>world = testFiles, calls = calls (testState testFiles) @ [CheckMethod]\<rparr>"
    by blast
  with passed have two: "?passed =
      (Inr ((testHookContext ''getProjectConfig'')\<lparr>result := Some (Ok (Some (JStr ''done'')))\<rparr>),
       \<lparr>world = testFiles, calls = [CheckMethod, Next]\<rparr>)"
    by simp
  from zero one two show ?thesis by blast
qed

text \<open>
  The claim as stated fails: on a project without its bicep file, a call of
  \<^verbatim>\<open>provisionResources\<close> passes the method and the user task checks, the migration throws
  \<^verbatim>\<open>ENOENT\<close>, and the middleware rejects with it instead of returning with
  \<^verbatim>\<open>ok(undefined)\<close>.
\<close>

theorem ProjectMigratorMWV3_rejects_when_migration_throws:
  "checkMethod (testEnv False (testSettings ''Azure'' (Some ''typescript'')))
       (testHookContext ''provisionResources'') [] = (Inr True, [])
   \<and> checkUserTasks (testEnv False (testSettings ''Azure'' (Some ''typescript'')))
       (testHookContext ''provisionResources'') [] = (Inr True, [])
   \<and> fst (ProjectMigratorMWV3 (testEnv False (testSettings ''Azure'' (Some ''typescript'')))
       (testHookContext ''provisionResources'') testNext (testState []))
     = Inl (FsError ''ENOENT'')"
  by code_simp

subsection \<open>The bicep file\<close>

text \<open>
  C10. The first call of the step \<^verbatim>\<open>generateAppYml\<close> is always the read of
  \<^verbatim>\<open>./templates/azure/provision.bicep\<close> under the project path, before the settings are
  loaded and the host type is looked at. When the first two steps have passed and that
  read throws, as it does when the file is absent, the step throws the same error with
  nothing else done, the whole migration fails, and \<^verbatim>\<open>wrapRunMigration\<close> runs the rollback
  from there. The host type plays no part: this holds for an SPFx project too.
\<close>

theorem generateAppYml_needs_bicep:
  assumes pre: "preMigration env context s = (Inr (), s1)"
    and gen: "generateSettingsJson env context s1 = (Inr (), s2)"
    and absent: "readFile env (pathJoin env [projectPath context, provisionBicepPath]) (world s2) = (Inl e, w3)"
  shows "(\<exists>evs. calls (snd (generateAppYml env context t))
            = calls t @ ReadFile (pathJoin env [projectPath context, provisionBicepPath]) # evs)
       \<and> generateAppYml env context s2 =
           (Inl e, \<lparr>world = w3,
                    calls = calls s2 @ [ReadFile (pathJoin env [projectPath context, provisionBicepPath])]\<rparr>)
       \<and> wrapRunMigration env context (migrate env) s =
           (case rollbackMigration env context
                   \<lparr>world = w3,
                    calls = calls s2 @ [ReadFile (pathJoin env [projectPath context, provisionBicepPath])]\<rparr> of
              (Inl e', s4) \<Rightarrow> (Inl e', s4)
            | (Inr u, s4) \<Rightarrow> (Inl e, s4))"
proof -
  let ?s3 = "\<lparr>world = w3,
              calls = calls s2 @ [ReadFile (pathJoin env [projectPath context, provisionBicepPath])]\<rparr>"
  from absent have step: "generateAppYml env context s2 = (Inl e, ?s3)"
    by (rule generateAppYml_absent)
  with pre gen have "migrate env context s = (Inl e, ?s3)"
    by (simp add: migrate_run)
  then have "wrapRunMigration env context (migrate env) s =
      (case rollbackMigration env context ?s3 of
         (Inl e', s4) \<Rightarrow> (Inl e', s4) | (Inr u, s4) \<Rightarrow> (Inl e, s4))"
    by (rule wrapRunMigration_throw)
  with step generateAppYml_first_call [of env "context" t] show ?thesis by blast
qed

text \<open>
  An SPFx project without a bicep file: the migration fails with \<^verbatim>\<open>ENOENT\<close> right after
  the read, and the three calls of the rollback follow.
\<close>

theorem generateAppYml_needs_bicep_witness:
  "fst (wrapRunMigration (testEnv False (testSettings ''SPFx'' None)) testContext
          (migrate (testEnv False (testSettings ''SPFx'' None))) (testState []))
     = Inl (FsError ''ENOENT'')
   \<and> drop 4 (calls (snd (wrapRunMigration (testEnv False (testSettings ''SPFx'' None)) testContext
          (migrate (testEnv False (testSettings ''SPFx'' None))) (testState []))))
     = [ReadFile ''proj/templates/azure/provision.bicep'', CleanModifiedPaths, RestoreBackup,
        CleanTeamsfx]"
proof -
  let ?env = "testEnv False (testSettings ''SPFx'' None)"
  let ?s1 = "snd (preMigration ?env testContext (testState []))"
  let ?s2 = "snd (generateSettingsJson ?env testContext ?s1)"
  let ?file = "pathJoin ?env [projectPath testContext, provisionBicepPath]"
  let ?s3 = "\<lparr>world = world ?s2, calls = calls ?s2 @ [ReadFile ?file]\<rparr>"
  have "\<not> isl (fst (preMigration ?env testContext (testState [])))"
    by code_simp
  then have pre: "preMigration ?env testContext (testState []) = (Inr (), ?s1)"
    by (rule run_Inr_unit)
  have "\<not> isl (fst (generateSettingsJson ?env testContext ?s1))"
    by code_simp
  then have gen: "generateSettingsJson ?env testContext ?s1 = (Inr (), ?s2)"
    by (rule run_Inr_unit)
  have absent: "readFile ?env ?file (world ?s2) = (Inl (FsError ''ENOENT''), world ?s2)"
    by code_simp
  have rollback: "(case rollbackMigration ?env testContext ?s3 of
                     (Inl e', s4) \<Rightarrow> (Inl e', s4)
                   | (Inr u, s4) \<Rightarrow> (Inl (FsError ''ENOENT''), s4))
      = (Inl (FsError ''ENOENT'') :: error + unit,
         \<lparr>world = world ?s2,
          calls = calls ?s2 @ [ReadFile ?file, CleanModifiedPaths, RestoreBackup, CleanTeamsfx]\<rparr>)"
    and len: "length (calls ?s2) = 4"
    and name: "?file = ''proj/templates/azure/provision.bicep''"
    by code_simp+
  from generateAppYml_needs_bicep [OF pre gen absent, of "testState []"]
  have "wrapRunMigration ?env testContext (migrate ?env) (testState []) =
      (case rollbackMigration ?env testContext ?s3 of
         (Inl e', s4) \<Rightarrow> (Inl e', s4)
       | (Inr u, s4) \<Rightarrow> (Inl (FsError ''ENOENT''), s4))"
    by blast
  with rollback have "wrapRunMigration ?env testContext (migrate ?env) (testState [])
      = (Inl (FsError ''ENOENT''),
         \<lparr>world = world ?s2,
          calls = calls ?s2 @ [ReadFile ?file, CleanModifiedPaths, RestoreBackup, CleanTeamsfx]\<rparr>)"
    by simp
  with len name show ?thesis by simp
qed


end
